theory Spec2Isabelle
  imports Main "HOL-Library.Word"
begin

section \<open>The VISA session wrapper of BK9130B (VISADevice.h)\<close>

text \<open>
  The class \<open>VISADevice\<close> wraps one resource-manager session and at most one device handle
  of the NI-VISA driver. The driver itself (\<open>visa.h\<close> and its library) is not part of the
  repository: it is a parameter of every operation below. Each member function becomes a
  function from the object's state to a result and the new state.
\<close>

subsection \<open>Types of visa.h\<close>

type_synonym ViUInt8 = "8 word"
type_synonym ViUInt32 = "32 word"
type_synonym ViByte = "8 word"
type_synonym ViStatus = "32 word"
type_synonym ViSession = "32 word"
type_synonym ViFindList = "32 word"
type_synonym ViAccessMode = "32 word"
type_synonym ViAttrState = "64 word"

text \<open>
  Modelled from the spec: \<open>visa.h\<close> is not in the repository, so the numeric values of the
  attribute identifiers are unknown here. The four identifiers the class names (the
  line-terminator attribute and the manufacturer, model and interface-instance string
  attributes) are kept symbolic; \<open>VI_ATTR\<close> stands for any other identifier a caller passes.
\<close>

datatype ViAttr =
    VI_ATTR_TERMCHAR
  | VI_ATTR_MANF_NAME
  | VI_ATTR_MODEL_NAME
  | VI_ATTR_INTF_INST_NAME
  | VI_ATTR ViUInt32

text \<open>
  Modelled from the spec: the success threshold of \<open>visa.h\<close>. The spec says that warnings
  are small positive codes, hard errors are negative codes and only negative codes are
  failures, so the threshold is zero.
\<close>

definition VI_SUCCESS :: ViStatus where
  "VI_SUCCESS = 0"

text \<open>
  The length of the discovery buffer, a macro of \<open>visa.h\<close>; the comment above
  \<open>ATTR_MAX_LENGTH\<close> in VISADevice.h gives its value, 256.
\<close>

definition VI_FIND_BUFLEN :: nat where
  "VI_FIND_BUFLEN = 256"

definition ERROR_MSG_MAX :: nat where
  "ERROR_MSG_MAX = 512"

definition ATTR_MAX_LENGTH :: nat where
  "ATTR_MAX_LENGTH = 1024"

subsection \<open>The driver as environment\<close>

text \<open>
  Every entry point of the driver that the class calls is an event, carrying the arguments
  the class passes by value. A resource name or a search expression reaches the driver as
  a C string (\<open>c_str()\<close>), so the event carries its text up to the first null byte. The
  blocking delay of \<open>query\<close> is an event too, so that the history shows whether it happened.
\<close>

datatype event =
    ViOpenDefaultRM
  | ViOpen ViSession string ViAccessMode ViUInt32
  | ViClose ViSession
  | ViGetAttribute ViSession ViAttr
  | ViSetAttribute ViSession ViAttr ViAttrState
  | ViWrite ViSession "ViByte list" ViUInt32
  | ViRead ViSession ViUInt32
  | ViFindRsrc ViSession string
  | ViFindNext ViFindList
  | ViStatusDesc ViSession ViStatus
  | SleepFor ViUInt32

text \<open>
  What a driver call leaves behind: its status code and the contents of its out-parameters
  after the call. \<open>outBuf\<close> is the image of the character buffer the caller handed over:
  \<open>outBuf r i\<close> is the byte found at offset \<open>i\<close>, whether the driver wrote it or not (the
  class allocates its buffers without initialising them).
\<close>

record ViReply =
  status :: ViStatus
  outHandle :: ViSession
  outCount :: ViUInt32
  outAttr :: ViAttrState
  outBuf :: "nat \<Rightarrow> char"

text \<open>The driver answers a call in the light of everything that happened before.\<close>

type_synonym driver = "event list \<Rightarrow> event \<Rightarrow> ViReply"

subsection \<open>The object\<close>

text \<open>
  The data members of the class (a name cannot end in an underscore here, so \<open>open_\<close> is
  \<open>open_m\<close>, and so on), and two ghost fields: \<open>trace\<close>, the driver calls and delays
  performed so far, oldest first, and \<open>heapFault\<close>, set once the C++ has read or written
  outside an allocation (from then on the language guarantees nothing; the model goes on
  with the pointer arithmetic of the source).
\<close>

record VISADevice =
  session_m :: ViSession
  device_m :: ViSession
  initialized_m :: bool
  open_m :: bool
  closeCmd_m :: string
  lastError_m :: string
  termChar_m :: ViUInt8
  timeout_m :: ViUInt32
  trace :: "event list"
  heapFault :: bool

definition viCall :: "driver \<Rightarrow> event \<Rightarrow> VISADevice \<Rightarrow> ViReply \<times> VISADevice" where
  "viCall drv c s = (drv (trace s) c, s\<lparr>trace := trace s @ [c]\<rparr>)"

subsection \<open>Character buffers\<close>

text \<open>The first \<open>n\<close> bytes found at a buffer, \<open>std::string(buf, n)\<close>.\<close>

definition buffer :: "nat \<Rightarrow> (nat \<Rightarrow> char) \<Rightarrow> char list" where
  "buffer n img = map img [0..<n]"

text \<open>\<open>std::string(buf)\<close>: the bytes before the first null.\<close>

definition c_str :: "char list \<Rightarrow> string" where
  "c_str buf = takeWhile (\<lambda>c. c \<noteq> CHR 0x00) buf"

subsection \<open>join\<close>

fun join_from :: "bool \<Rightarrow> string list \<Rightarrow> string \<Rightarrow> string" where
  "join_from addSep [] sep = []"
| "join_from addSep (x # xs) sep = (if addSep then sep else []) @ x @ join_from True xs sep"

definition join :: "string list \<Rightarrow> string \<Rightarrow> string" where
  "join xs sep = join_from False xs sep"

subsection \<open>processStatus\<close>

definition processStatus :: "driver \<Rightarrow> ViStatus \<Rightarrow> VISADevice \<Rightarrow> bool \<times> VISADevice" where
  "processStatus drv st s =
     (if st <s VI_SUCCESS then
        (if open_m s \<or> initialized_m s then
           (let tmp = (if open_m s then device_m s else session_m s);
                (r, s1) = viCall drv (ViStatusDesc tmp st) s;
                buf = (buffer ERROR_MSG_MAX (outBuf r))[ERROR_MSG_MAX - 1 := CHR 0x00]
            in (False, s1\<lparr>lastError_m := c_str buf\<rparr>))
         else (False, s\<lparr>lastError_m := ''Neither session nor device is initialized''\<rparr>))
      else (True, s))"

subsection \<open>Constructor\<close>

text \<open>
  The constructor's initialiser list names \<open>closeCmd_m\<close> and \<open>lastError_m\<close> only. The other
  members keep whatever the object's storage held: \<open>mem\<close> is that storage.
\<close>

definition VISADevice_ctor :: "driver \<Rightarrow> VISADevice \<Rightarrow> VISADevice" where
  "VISADevice_ctor drv mem =
     (let s0 = mem\<lparr>closeCmd_m := [], lastError_m := []\<rparr>;
          (r, s1) = viCall drv ViOpenDefaultRM s0;
          s2 = s1\<lparr>session_m := outHandle r\<rparr>;
          (ok, s3) = processStatus drv (status r) s2
      in if ok then s3\<lparr>initialized_m := True\<rparr> else s3)"

definition isInitialized :: "VISADevice \<Rightarrow> bool" where
  "isInitialized s = initialized_m s"

definition isOpen :: "VISADevice \<Rightarrow> bool" where
  "isOpen s = open_m s"

subsection \<open>write\<close>

text \<open>The private overload \<open>write(ViByte*, ViUInt32)\<close>.\<close>

definition write_buf ::
  "driver \<Rightarrow> ViByte list \<Rightarrow> ViUInt32 \<Rightarrow> VISADevice \<Rightarrow> bool \<times> VISADevice" where
  "write_buf drv msg msgSize s =
     (if initialized_m s \<and> open_m s then
        (let (r, s1) = viCall drv (ViWrite (device_m s) msg msgSize) s
         in processStatus drv (status r) s1)
      else (False, s))"

text \<open>
  \<open>write(const std::string&)\<close>. The size is cast to \<open>ViUInt32\<close>, so it wraps for a message of
  \<open>2^32 - 1\<close> bytes or more; the allocation is then smaller than the message and
  \<open>std::copy\<close> runs past it (\<open>heapFault\<close>). \<open>image\<close> is what lies at \<open>buf\<close> after the copy
  and the store of the terminator at index \<open>bufSize - 1\<close> (computed in \<open>ViUInt32\<close>); its last
  cell stands for the one byte of the allocation that the copy does not fill. The driver is
  handed the first \<open>bufSize\<close> bytes.
\<close>

definition write_msg ::
  "driver \<Rightarrow> string \<Rightarrow> VISADevice \<Rightarrow> bool \<times> VISADevice" where
  "write_msg drv msg s =
     (let bufSize = (word_of_nat (length msg + 1) :: ViUInt32);
          image = (map of_char msg @ [0])[unat (bufSize - 1) := termChar_m s];
          s' = s\<lparr>heapFault := heapFault s \<or> unat bufSize < length msg + 1\<rparr>
      in write_buf drv (take (unat bufSize) image) bufSize s')"

text \<open>
  Whether \<open>write\<close> on a message runs past its buffer: the converted size is smaller than
  the message and its terminator.
\<close>

definition overruns :: "string \<Rightarrow> bool" where
  "overruns msg = (unat (word_of_nat (length msg + 1) :: ViUInt32) < length msg + 1)"

definition getCmdSeperator :: "VISADevice \<Rightarrow> string" where
  "getCmdSeperator s = '';'' @ [char_of (unat (termChar_m s))]"

text \<open>\<open>write(const std::vector<std::string>&)\<close>.\<close>

definition write_list ::
  "driver \<Rightarrow> string list \<Rightarrow> VISADevice \<Rightarrow> bool \<times> VISADevice" where
  "write_list drv list s = write_msg drv (join list (getCmdSeperator s)) s"

subsection \<open>close, open, onClose\<close>

text \<open>
  \<open>open\<close> and \<open>write\<close> are reserved words of the theory language: the member functions
  are \<open>open_device\<close> and \<open>write_msg\<close> here. \<open>close\<close> sends the registered command with the
  terminator the object holds at that moment, then releases the handle; \<open>open_\<close> falls only
  when the driver accepts the release.
\<close>

definition close :: "driver \<Rightarrow> VISADevice \<Rightarrow> bool \<times> VISADevice" where
  "close drv s =
     (if open_m s then
        (let s1 = (if closeCmd_m s \<noteq> [] then
                     (let (ok, s') = write_msg drv (closeCmd_m s) s
                      in if \<not> ok
                         then s'\<lparr>lastError_m :=
                                   ''[WARN]: failed to send onClose command!'' @ [CHR 0x0A]\<rparr>
                         else s')
                   else s);
             (r, s2) = viCall drv (ViClose (device_m s1)) s1;
             (ok, s3) = processStatus drv (status r) s2;
             s4 = (if ok then s3\<lparr>open_m := False\<rparr> else s3)
         in (\<not> open_m s4, s4))
      else (\<not> open_m s, s))"

definition open_device ::
  "driver \<Rightarrow> string \<Rightarrow> ViAccessMode \<Rightarrow> ViUInt32 \<Rightarrow> VISADevice \<Rightarrow> bool \<times> VISADevice" where
  "open_device drv deviceStr accessMode timeout s =
     (let s0 = s\<lparr>timeout_m := timeout\<rparr>
      in if initialized_m s0 then
           (let (r, s1) = viCall drv (ViOpen (session_m s0) (c_str deviceStr) accessMode timeout) s0;
                s2 = s1\<lparr>device_m := outHandle r\<rparr>;
                (ok, s3) = processStatus drv (status r) s2
            in if ok then
                 (let s4 = s3\<lparr>open_m := True\<rparr>;
                      (r', s5) = viCall drv (ViGetAttribute (device_m s4) VI_ATTR_TERMCHAR) s4;
                      s6 = s5\<lparr>termChar_m := ucast (outAttr r')\<rparr>;
                      (success, s7) = processStatus drv (status r') s6
                  in if \<not> success then (success, snd (close drv s7)) else (success, s7))
               else (False, s3))
         else (False, s0))"

text \<open>
  The first block of \<open>close\<close> on its own (the best-effort write of the registered command):
  the object as it is when \<open>close\<close> reaches \<open>viClose\<close>. It serves to name the history at
  which that call is made.
\<close>

definition sendCloseCmd :: "driver \<Rightarrow> VISADevice \<Rightarrow> VISADevice" where
  "sendCloseCmd drv s =
     (if closeCmd_m s \<noteq> [] then
        (let (ok, s') = write_msg drv (closeCmd_m s) s
         in if \<not> ok
            then s'\<lparr>lastError_m := ''[WARN]: failed to send onClose command!'' @ [CHR 0x0A]\<rparr>
            else s')
      else s)"

definition onClose :: "string \<Rightarrow> VISADevice \<Rightarrow> VISADevice" where
  "onClose cmd s = s\<lparr>closeCmd_m := cmd\<rparr>"

definition onClose_list :: "string list \<Rightarrow> VISADevice \<Rightarrow> VISADevice" where
  "onClose_list cmds s = s\<lparr>closeCmd_m := join cmds (getCmdSeperator s)\<rparr>"

subsection \<open>Destructor\<close>

definition VISADevice_dtor :: "driver \<Rightarrow> VISADevice \<Rightarrow> VISADevice" where
  "VISADevice_dtor drv s =
     (if initialized_m s then
        (let s1 = (if open_m s then snd (close drv s) else s)
         in if \<not> open_m s1 then
              (let (r, s2) = viCall drv (ViClose (session_m s1)) s1;
                   (ok, s3) = processStatus drv (status r) s2
               in if ok then s3\<lparr>initialized_m := False\<rparr> else s3)
            else s1)
      else s)"

subsection \<open>Attributes\<close>

definition setAttribute ::
  "driver \<Rightarrow> ViAttr \<Rightarrow> ViAttrState \<Rightarrow> VISADevice \<Rightarrow> bool \<times> VISADevice" where
  "setAttribute drv attribute state s =
     (if open_m s then
        (let (r, s1) = viCall drv (ViSetAttribute (device_m s) attribute state) s
         in processStatus drv (status r) s1)
      else (False, s))"

text \<open>
  \<open>getScalarAttribute<T>\<close>. \<open>ptr\<close> is the value at \<open>*ptr\<close> before the call; the result carries
  the value found there afterwards.
\<close>

definition getScalarAttribute ::
  "driver \<Rightarrow> ViAttr \<Rightarrow> ViAttrState \<Rightarrow> VISADevice \<Rightarrow> (bool \<times> ViAttrState) \<times> VISADevice" where
  "getScalarAttribute drv attribute ptr s =
     (if open_m s then
        (let (r, s1) = viCall drv (ViGetAttribute (device_m s) attribute) s;
             (success, s2) = processStatus drv (status r) s1
         in ((success, outAttr r), s2))
      else ((False, ptr), s))"

definition getStringAttribute ::
  "driver \<Rightarrow> ViAttr \<Rightarrow> VISADevice \<Rightarrow> string \<times> VISADevice" where
  "getStringAttribute drv attribute s =
     (if open_m s then
        (let (r, s1) = viCall drv (ViGetAttribute (device_m s) attribute) s;
             (ignored, s2) = processStatus drv (status r) s1;
             buf = (buffer ATTR_MAX_LENGTH (outBuf r))[ATTR_MAX_LENGTH - 1 := CHR 0x00]
         in (c_str buf, s2))
      else ([], s))"

text \<open>
  \<open>getDeviceDescription\<close>. The three attribute reads are operands of one expression, and
  C++ does not fix the order in which they run: the order is the compiler's choice and a
  parameter here, naming which of manufacturer (\<open>M\<close>), model (\<open>D\<close>) and interface
  instance (\<open>I\<close>) is read first, second and third. The text is assembled in the written
  order whatever the reads' order.
\<close>

datatype eval_order = MDI | MID | DMI | DIM | IMD | IDM

definition describe :: "string \<Rightarrow> string \<Rightarrow> string \<Rightarrow> string" where
  "describe manf model inst = manf @ '' : '' @ model @ '' : '' @ inst"

definition getDeviceDescription ::
  "driver \<Rightarrow> eval_order \<Rightarrow> VISADevice \<Rightarrow> string \<times> VISADevice" where
  "getDeviceDescription drv ord s =
     (if open_m s then
        (case ord of
           MDI \<Rightarrow>
             (let (manf, s1) = getStringAttribute drv VI_ATTR_MANF_NAME s;
                  (model, s2) = getStringAttribute drv VI_ATTR_MODEL_NAME s1;
                  (inst, s3) = getStringAttribute drv VI_ATTR_INTF_INST_NAME s2
              in (describe manf model inst, s3))
         | MID \<Rightarrow>
             (let (manf, s1) = getStringAttribute drv VI_ATTR_MANF_NAME s;
                  (inst, s2) = getStringAttribute drv VI_ATTR_INTF_INST_NAME s1;
                  (model, s3) = getStringAttribute drv VI_ATTR_MODEL_NAME s2
              in (describe manf model inst, s3))
         | DMI \<Rightarrow>
             (let (model, s1) = getStringAttribute drv VI_ATTR_MODEL_NAME s;
                  (manf, s2) = getStringAttribute drv VI_ATTR_MANF_NAME s1;
                  (inst, s3) = getStringAttribute drv VI_ATTR_INTF_INST_NAME s2
              in (describe manf model inst, s3))
         | DIM \<Rightarrow>
             (let (model, s1) = getStringAttribute drv VI_ATTR_MODEL_NAME s;
                  (inst, s2) = getStringAttribute drv VI_ATTR_INTF_INST_NAME s1;
                  (manf, s3) = getStringAttribute drv VI_ATTR_MANF_NAME s2
              in (describe manf model inst, s3))
         | IMD \<Rightarrow>
             (let (inst, s1) = getStringAttribute drv VI_ATTR_INTF_INST_NAME s;
                  (manf, s2) = getStringAttribute drv VI_ATTR_MANF_NAME s1;
                  (model, s3) = getStringAttribute drv VI_ATTR_MODEL_NAME s2
              in (describe manf model inst, s3))
         | IDM \<Rightarrow>
             (let (inst, s1) = getStringAttribute drv VI_ATTR_INTF_INST_NAME s;
                  (model, s2) = getStringAttribute drv VI_ATTR_MODEL_NAME s1;
                  (manf, s3) = getStringAttribute drv VI_ATTR_MANF_NAME s2
              in (describe manf model inst, s3)))
      else ([], s))"

subsection \<open>read, query\<close>

text \<open>
  \<open>read\<close> builds its reply from \<open>retSize\<close> bytes of a buffer of \<open>bufSize\<close> bytes; a driver
  that reports more than it was given room for makes the class read past the buffer.
\<close>

definition read :: "driver \<Rightarrow> ViUInt32 \<Rightarrow> VISADevice \<Rightarrow> string \<times> VISADevice" where
  "read drv bufSize s =
     (if initialized_m s \<and> open_m s then
        (let (r, s1) = viCall drv (ViRead (device_m s) bufSize) s;
             (ok, s2) = processStatus drv (status r) s1
         in if ok
            then (buffer (unat (outCount r)) (outBuf r),
                  s2\<lparr>heapFault := heapFault s2 \<or> unat bufSize < unat (outCount r)\<rparr>)
            else ([], s2))
      else ([], s))"

definition query :: "driver \<Rightarrow> string \<Rightarrow> VISADevice \<Rightarrow> string \<times> VISADevice" where
  "query drv msg s =
     (let (success, s1) = write_msg drv msg s
      in if success then
           (let s2 = s1\<lparr>trace := trace s1 @ [SleepFor (timeout_m s1)]\<rparr>
            in read drv 0x00000400 s2)
         else ([], s1))"

definition getLastError :: "VISADevice \<Rightarrow> string \<times> VISADevice" where
  "getLastError s = (let tmp = lastError_m s in (tmp, s\<lparr>lastError_m := []\<rparr>))"

subsection \<open>findInstruments\<close>

text \<open>
  The loop over \<open>viFindNext\<close>, from index \<open>k\<close> up to \<open>retSize\<close>; a failing step leaves the
  loop and the remaining elements as \<open>resize\<close> made them, empty.
\<close>

function findNext_loop ::
  "driver \<Rightarrow> ViFindList \<Rightarrow> nat \<Rightarrow> nat \<Rightarrow> string list \<Rightarrow> VISADevice
     \<Rightarrow> string list \<times> VISADevice" where
  "findNext_loop drv findList k retSize instrList s =
     (if k < retSize then
        (let (r, s1) = viCall drv (ViFindNext findList) s;
             (ok, s2) = processStatus drv (status r) s1
         in if ok then
              (let buf = (buffer VI_FIND_BUFLEN (outBuf r))[VI_FIND_BUFLEN - 1 := CHR 0x00]
               in findNext_loop drv findList (k + 1) retSize (instrList[k := c_str buf]) s2)
            else (instrList, s2))
      else (instrList, s))"
  by pat_completeness auto
termination
  by (relation "measure (\<lambda>(drv, findList, k, retSize, instrList, s). retSize - k)") auto

text \<open>
  \<open>findInstruments\<close>. After \<open>resize(retSize)\<close> the source assigns to \<open>instrList[0]\<close> without
  looking at \<open>retSize\<close>: for a successful discovery that reports no match this is a store
  outside the vector (\<open>heapFault\<close>), and the vector returned is empty.
\<close>

definition findInstruments ::
  "driver \<Rightarrow> string \<Rightarrow> VISADevice \<Rightarrow> string list \<times> VISADevice" where
  "findInstruments drv expr s =
     (if initialized_m s then
        (let (r, s1) = viCall drv (ViFindRsrc (session_m s) (c_str expr)) s;
             (ok, s2) = processStatus drv (status r) s1
         in if ok then
              (let retSize = unat (outCount r);
                   instrList = replicate retSize [];
                   s3 = s2\<lparr>heapFault := heapFault s2 \<or> retSize = 0\<rparr>;
                   instrList = instrList[0 := buffer VI_FIND_BUFLEN (outBuf r)]
               in findNext_loop drv (outHandle r) 1 retSize instrList s3)
            else ([], s2))
      else ([], s))"

subsection \<open>Concrete drivers and objects\<close>

text \<open>
  Replies and drivers for the concrete runs below: a reply that reports success and one
  that reports a hard error (a negative status), and drivers that fail on chosen entry
  points only.
\<close>

definition reply_ok :: ViReply where
  "reply_ok = \<lparr>status = 0, outHandle = 1, outCount = 0, outAttr = 0x0A,
                outBuf = (\<lambda>i. CHR 0x00)\<rparr>"

definition reply_err :: ViReply where
  "reply_err = \<lparr>status = 0xBFFF0000, outHandle = 0, outCount = 0, outAttr = 0,
                 outBuf = (\<lambda>i. if i < 3 then CHR ''E'' else CHR 0x00)\<rparr>"

definition reply_found :: ViReply where
  "reply_found = \<lparr>status = 0, outHandle = 7, outCount = 2, outAttr = 0,
                   outBuf = (\<lambda>i. if i < 4 then CHR ''U'' else CHR 0x00)\<rparr>"

definition drv_ok :: driver where
  "drv_ok tr c = reply_ok"

definition drv_fail :: driver where
  "drv_fail tr c = reply_err"

definition drv_no_session :: driver where
  "drv_no_session tr c = (case c of ViOpenDefaultRM \<Rightarrow> reply_err | _ \<Rightarrow> reply_ok)"

definition drv_no_termchar :: driver where
  "drv_no_termchar tr c = (case c of ViGetAttribute h a \<Rightarrow> reply_err | _ \<Rightarrow> reply_ok)"

definition drv_no_termchar_no_close :: driver where
  "drv_no_termchar_no_close tr c =
     (case c of ViGetAttribute h a \<Rightarrow> reply_err | ViClose h \<Rightarrow> reply_err | _ \<Rightarrow> reply_ok)"

definition drv_no_close :: driver where
  "drv_no_close tr c = (case c of ViClose h \<Rightarrow> reply_err | _ \<Rightarrow> reply_ok)"

definition drv_no_write :: driver where
  "drv_no_write tr c = (case c of ViWrite h b n \<Rightarrow> reply_err | _ \<Rightarrow> reply_ok)"

definition drv_found :: driver where
  "drv_found tr c = reply_found"

text \<open>Storage with every flag clear, storage with the two flags set, and two objects.\<close>

definition mem_clear :: VISADevice where
  "mem_clear = \<lparr>session_m = 0, device_m = 0, initialized_m = False, open_m = False,
                 closeCmd_m = [], lastError_m = [], termChar_m = 0, timeout_m = 0,
                 trace = [], heapFault = False\<rparr>"

definition mem_set :: VISADevice where
  "mem_set = mem_clear\<lparr>initialized_m := True, open_m := True\<rparr>"

definition mem_open_only :: VISADevice where
  "mem_open_only = mem_clear\<lparr>open_m := True\<rparr>"

definition dev_init :: VISADevice where
  "dev_init = mem_clear\<lparr>session_m := 1, initialized_m := True\<rparr>"

definition dev_open :: VISADevice where
  "dev_open = dev_init\<lparr>device_m := 1, open_m := True, termChar_m := 0x0A, timeout_m := 2000\<rparr>"

subsection \<open>Kinds of events\<close>

text \<open>The events a \<open>write\<close> can add to the history: the driver's write and a status description.\<close>

definition isWriteEvent :: "event \<Rightarrow> bool" where
  "isWriteEvent e = (case e of ViWrite h b n \<Rightarrow> True | ViStatusDesc h st \<Rightarrow> True | _ \<Rightarrow> False)"

subsection \<open>Null-free strings\<close>

text \<open>
  What a string built by \<open>std::string(buf)\<close> from the discovery buffer looks like: no null
  byte inside, and shorter than the buffer.
\<close>

definition truncated :: "string \<Rightarrow> bool" where
  "truncated x = (CHR 0x00 \<notin> set x \<and> length x < VI_FIND_BUFLEN)"

text \<open>Replies that leave the text \<open>BB\<close> in the buffer, with a good and with a bad status.\<close>

definition reply_name :: ViReply where
  "reply_name = \<lparr>status = 0, outHandle = 1, outCount = 0, outAttr = 0,
                  outBuf = (\<lambda>i. if i < 2 then CHR ''B'' else CHR 0x00)\<rparr>"

definition reply_name_err :: ViReply where
  "reply_name_err = reply_name\<lparr>status := 0xBFFF0000\<rparr>"

definition drv_name :: driver where
  "drv_name tr c = reply_name"

definition drv_name_err :: driver where
  "drv_name_err tr c = (case c of ViGetAttribute h a \<Rightarrow> reply_name_err | _ \<Rightarrow> reply_err)"

section \<open>Properties\<close>

subsection \<open>Status translation\<close>

lemma reply_err_fails: "status reply_err <s VI_SUCCESS"
  by (simp add: reply_err_def VI_SUCCESS_def word_sless_alt)

lemma reply_ok_succeeds: "\<not> status reply_ok <s VI_SUCCESS"
  by (simp add: reply_ok_def VI_SUCCESS_def)

lemma fst_processStatus: "fst (processStatus drv st s) = (\<not> st <s VI_SUCCESS)"
  by (simp add: processStatus_def Let_def split_beta)

lemma processStatus_ok: "\<not> st <s VI_SUCCESS \<Longrightarrow> processStatus drv st s = (True, s)"
  by (simp add: processStatus_def)

lemma processStatus_fields:
  "open_m (snd (processStatus drv st s)) = open_m s"
  "initialized_m (snd (processStatus drv st s)) = initialized_m s"
  "device_m (snd (processStatus drv st s)) = device_m s"
  "session_m (snd (processStatus drv st s)) = session_m s"
  "termChar_m (snd (processStatus drv st s)) = termChar_m s"
  "timeout_m (snd (processStatus drv st s)) = timeout_m s"
  "closeCmd_m (snd (processStatus drv st s)) = closeCmd_m s"
  "heapFault (snd (processStatus drv st s)) = heapFault s"
  by (simp_all add: processStatus_def viCall_def Let_def split_beta)

lemma processStatus_trace:
  "trace (snd (processStatus drv st s)) =
     trace s @ (if st <s VI_SUCCESS \<and> (open_m s \<or> initialized_m s)
                then [ViStatusDesc (if open_m s then device_m s else session_m s) st] else [])"
  by (simp add: processStatus_def viCall_def Let_def split_beta)

text \<open>
  Claim C5. \<open>processStatus\<close> returns true exactly for the status codes at or above
  \<open>VI_SUCCESS\<close> in the signed order, that is for the codes that are not negative: a
  positive warning code is a success. Whenever it returns true it has changed nothing, so
  the stored last error is the one from before.
\<close>

theorem processStatus_success_threshold:
  "fst (processStatus drv st s) = (VI_SUCCESS \<le>s st)
   \<and> fst (processStatus drv st s) = (0 \<le> sint st)
   \<and> (fst (processStatus drv st s) \<longrightarrow> snd (processStatus drv st s) = s)
   \<and> (fst (processStatus drv st s) \<longrightarrow>
        lastError_m (snd (processStatus drv st s)) = lastError_m s)"
proof -
  have thr: "(\<not> st <s VI_SUCCESS) = (VI_SUCCESS \<le>s st)"
    by (simp add: signed.not_less)
  have sgn: "(VI_SUCCESS \<le>s st) = (0 \<le> sint st)"
    by (simp add: VI_SUCCESS_def word_sle_eq)
  have same: "fst (processStatus drv st s) \<Longrightarrow> snd (processStatus drv st s) = s"
    by (simp add: fst_processStatus processStatus_ok)
  show ?thesis
    using thr sgn same by (auto simp add: fst_processStatus)
qed

text \<open>
  A run of C5: the warning code \<open>0x3FFF0005\<close> is positive, so it counts as success, and
  the last error \<open>''old''\<close> stays.
\<close>

theorem processStatus_success_threshold_witness:
  "fst (processStatus drv_fail 0x3FFF0005 (dev_open\<lparr>lastError_m := ''old''\<rparr>))
   \<and> lastError_m (snd (processStatus drv_fail 0x3FFF0005 (dev_open\<lparr>lastError_m := ''old''\<rparr>)))
       = ''old''"
  using processStatus_success_threshold
    [of drv_fail "0x3FFF0005" "dev_open\<lparr>lastError_m := ''old''\<rparr>"]
  by (simp add: word_sle_eq VI_SUCCESS_def)

lemma processStatus_lastError:
  "lastError_m (snd (processStatus drv st s)) =
     (if st <s VI_SUCCESS then
        (if open_m s \<or> initialized_m s then
           c_str ((buffer ERROR_MSG_MAX
                     (outBuf (drv (trace s)
                        (ViStatusDesc (if open_m s then device_m s else session_m s) st))))
                  [ERROR_MSG_MAX - 1 := CHR 0x00])
         else ''Neither session nor device is initialized'')
      else lastError_m s)"
  by (simp add: processStatus_def viCall_def Let_def split_beta)

lemma c_str_buffer_err:
  "c_str ((buffer ERROR_MSG_MAX (outBuf reply_err))[ERROR_MSG_MAX - 1 := CHR 0x00]) = ''EEE''"
  by code_simp

subsection \<open>The last error\<close>

text \<open>
  Claim C6. \<open>getLastError\<close> returns the stored last error and clears it, so reading twice in
  a row gives the empty string the second time. After a failing status the stored string
  is the description of that failure (the driver's text cut at its first null, or the
  fixed text when there is no handle to ask): the first read returns it, the second
  returns the empty string.
\<close>

theorem getLastError_destructive_read:
  "getLastError s = (lastError_m s, s\<lparr>lastError_m := []\<rparr>)
   \<and> fst (getLastError (snd (getLastError s))) = []
   \<and> (st <s VI_SUCCESS \<longrightarrow>
        fst (getLastError (snd (processStatus drv st s))) =
          (if open_m s \<or> initialized_m s then
             c_str ((buffer ERROR_MSG_MAX
                       (outBuf (drv (trace s)
                          (ViStatusDesc (if open_m s then device_m s else session_m s) st))))
                    [ERROR_MSG_MAX - 1 := CHR 0x00])
           else ''Neither session nor device is initialized'')
        \<and> fst (getLastError (snd (getLastError (snd (processStatus drv st s))))) = [])"
  by (simp add: getLastError_def processStatus_lastError)

text \<open>
  A run of C6: a hard error on an open device, described by the driver as \<open>''EEE''\<close>.
\<close>

theorem getLastError_destructive_read_witness:
  "status reply_err <s VI_SUCCESS
   \<and> fst (getLastError (snd (processStatus drv_fail (status reply_err) dev_open))) = ''EEE''
   \<and> fst (getLastError (snd (getLastError
            (snd (processStatus drv_fail (status reply_err) dev_open))))) = []"
  using getLastError_destructive_read [of dev_open "status reply_err" drv_fail]
  by (simp add: reply_err_fails dev_open_def dev_init_def mem_clear_def drv_fail_def
       c_str_buffer_err del: One_nat_def)

subsection \<open>Construction\<close>

lemma ctor_initialized:
  "initialized_m (VISADevice_ctor drv mem) =
     (\<not> status (drv (trace mem) ViOpenDefaultRM) <s VI_SUCCESS \<or> initialized_m mem)"
  by (simp add: VISADevice_ctor_def viCall_def Let_def split_beta fst_processStatus
        processStatus_fields)

lemma ctor_open:
  "open_m (VISADevice_ctor drv mem) = open_m mem"
  by (simp add: VISADevice_ctor_def viCall_def Let_def split_beta fst_processStatus
        processStatus_fields)

text \<open>
  Claim C1 says that a constructor whose session acquisition fails leaves
  \<open>initialized_ = false\<close>. The constructor assigns \<open>initialized_\<close> only on success and no
  member initialiser gives it a value, so after a failure the flag is whatever the storage
  held (\<open>ctor_initialized\<close>). With the flag bytes set in the storage and a driver that
  refuses the session, the object reports itself initialized and \<open>setAttribute\<close> goes
  through to the driver and returns true; with the bytes clear it reports false.
\<close>

theorem ctor_failure_keeps_storage_flag:
  "status (drv_no_session (trace mem_set) ViOpenDefaultRM) <s VI_SUCCESS
   \<and> isInitialized (VISADevice_ctor drv_no_session mem_set)
   \<and> fst (setAttribute drv_no_session VI_ATTR_TERMCHAR 0x0A
            (VISADevice_ctor drv_no_session mem_set))
   \<and> \<not> isInitialized (VISADevice_ctor drv_no_session mem_clear)"
proof -
  have f: "status (drv_no_session (trace mem_set) ViOpenDefaultRM) <s VI_SUCCESS"
    by (simp add: drv_no_session_def reply_err_fails)
  have g: "status (drv_no_session (trace mem_clear) ViOpenDefaultRM) <s VI_SUCCESS"
    by (simp add: drv_no_session_def reply_err_fails)
  have i1: "isInitialized (VISADevice_ctor drv_no_session mem_set)"
    by (simp add: isInitialized_def ctor_initialized mem_set_def)
  have i2: "\<not> isInitialized (VISADevice_ctor drv_no_session mem_clear)"
    using g by (simp add: isInitialized_def ctor_initialized mem_clear_def)
  have o: "open_m (VISADevice_ctor drv_no_session mem_set)"
    by (simp add: ctor_open mem_set_def)
  have a: "fst (setAttribute drv_no_session VI_ATTR_TERMCHAR 0x0A
            (VISADevice_ctor drv_no_session mem_set))"
    using o by (simp add: setAttribute_def viCall_def Let_def split_beta fst_processStatus
                  drv_no_session_def reply_ok_succeeds)
  show ?thesis using f i1 i2 a by simp
qed

subsection \<open>write\<close>

lemma write_buf_fields:
  "open_m (snd (write_buf drv b n s)) = open_m s"
  "initialized_m (snd (write_buf drv b n s)) = initialized_m s"
  "device_m (snd (write_buf drv b n s)) = device_m s"
  "session_m (snd (write_buf drv b n s)) = session_m s"
  "termChar_m (snd (write_buf drv b n s)) = termChar_m s"
  "timeout_m (snd (write_buf drv b n s)) = timeout_m s"
  "closeCmd_m (snd (write_buf drv b n s)) = closeCmd_m s"
  by (simp_all add: write_buf_def viCall_def Let_def split_beta processStatus_fields)

lemma write_msg_fields:
  "open_m (snd (write_msg drv msg s)) = open_m s"
  "initialized_m (snd (write_msg drv msg s)) = initialized_m s"
  "device_m (snd (write_msg drv msg s)) = device_m s"
  "session_m (snd (write_msg drv msg s)) = session_m s"
  "termChar_m (snd (write_msg drv msg s)) = termChar_m s"
  "timeout_m (snd (write_msg drv msg s)) = timeout_m s"
  "closeCmd_m (snd (write_msg drv msg s)) = closeCmd_m s"
  by (simp_all add: write_msg_def Let_def write_buf_fields)

lemma write_buf_heapFault: "heapFault (snd (write_buf drv b n s)) = heapFault s"
  by (simp add: write_buf_def viCall_def Let_def split_beta processStatus_fields)

lemma write_msg_heapFault:
  "heapFault (snd (write_msg drv msg s)) = (heapFault s \<or> overruns msg)"
  by (simp add: write_msg_def Let_def write_buf_heapFault overruns_def)

lemma write_buf_guard:
  "\<not> (initialized_m s \<and> open_m s) \<Longrightarrow> write_buf drv b n s = (False, s)"
  by (auto simp add: write_buf_def)

lemma write_buf_trace:
  "\<exists>evs. trace (snd (write_buf drv b n s)) = trace s @ evs \<and> list_all isWriteEvent evs"
  by (simp add: write_buf_def viCall_def Let_def split_beta processStatus_trace isWriteEvent_def)

lemma write_msg_trace:
  "\<exists>evs. trace (snd (write_msg drv msg s)) = trace s @ evs \<and> list_all isWriteEvent evs"
  using write_buf_trace [of drv _ _ "s\<lparr>heapFault := heapFault s \<or>
                    unat (word_of_nat (length msg + 1) :: ViUInt32) < length msg + 1\<rparr>"]
  by (simp add: write_msg_def Let_def)

subsection \<open>query\<close>

text \<open>
  Claim C4. When the write inside \<open>query\<close> fails, \<open>query\<close> returns the empty string and
  the state the write left, nothing more: the events it added to the history are those
  of the write, so there is neither a delay nor a read among them.
\<close>

theorem query_write_failure:
  assumes "\<not> fst (write_msg drv msg s)"
  shows "query drv msg s = ([], snd (write_msg drv msg s))
         \<and> list_all (\<lambda>e. e \<noteq> SleepFor t \<and> e \<noteq> ViRead h n)
             (drop (length (trace s)) (trace (snd (query drv msg s))))"
proof -
  have q: "query drv msg s = ([], snd (write_msg drv msg s))"
    using assms by (simp add: query_def split_beta)
  obtain evs where evs: "trace (snd (write_msg drv msg s)) = trace s @ evs"
    and w: "list_all isWriteEvent evs"
    using write_msg_trace by blast
  have "list_all (\<lambda>e. e \<noteq> SleepFor t \<and> e \<noteq> ViRead h n) evs"
    using w by (auto simp add: list_all_iff isWriteEvent_def)
  then show ?thesis using q evs by simp
qed

lemma write_fails_no_write:
  "\<not> fst (write_msg drv_no_write ''*IDN?'' dev_open)"
  by (simp add: write_msg_def write_buf_def viCall_def Let_def split_beta fst_processStatus
        dev_open_def dev_init_def mem_clear_def drv_no_write_def reply_err_fails)

text \<open>A run of C4: an open device whose driver rejects the write.\<close>

theorem query_write_failure_witness:
  "\<not> fst (write_msg drv_no_write ''*IDN?'' dev_open)
   \<and> fst (query drv_no_write ''*IDN?'' dev_open) = []
   \<and> list_all (\<lambda>e. e \<noteq> SleepFor 2000 \<and> e \<noteq> ViRead 1 0x400)
        (drop (length (trace dev_open)) (trace (snd (query drv_no_write ''*IDN?'' dev_open))))"
proof -
  note t = query_write_failure [OF write_fails_no_write, of 2000 1 "0x400"]
  from t have a: "fst (query drv_no_write ''*IDN?'' dev_open) = []"
    by simp
  from t have b: "list_all (\<lambda>e. e \<noteq> SleepFor 2000 \<and> e \<noteq> ViRead 1 0x400)
        (drop (length (trace dev_open)) (trace (snd (query drv_no_write ''*IDN?'' dev_open))))"
    by (rule conjunct2)
  show ?thesis using write_fails_no_write a b by (intro conjI)
qed

subsection \<open>close\<close>

lemma c_str_resource: "c_str ''USB0::INSTR'' = ''USB0::INSTR''"
  by (simp add: c_str_def)

lemma close_not_open: "\<not> open_m s \<Longrightarrow> close drv s = (True, s)"
  by (simp add: close_def)

lemma fst_close: "fst (close drv s) = (\<not> open_m (snd (close drv s)))"
  by (simp add: close_def Let_def split_beta)

lemma sendCloseCmd_empty: "closeCmd_m s = [] \<Longrightarrow> sendCloseCmd drv s = s"
  by (simp add: sendCloseCmd_def)

lemma sendCloseCmd_trace:
  "\<exists>w. trace (sendCloseCmd drv s) = trace s @ w \<and> list_all isWriteEvent w"
proof (cases "closeCmd_m s = []")
  case True
  then show ?thesis by (simp add: sendCloseCmd_empty)
next
  case False
  then have "trace (sendCloseCmd drv s) = trace (snd (write_msg drv (closeCmd_m s) s))"
    by (simp add: sendCloseCmd_def split_beta)
  then show ?thesis
    using write_msg_trace [of drv "closeCmd_m s" s] by simp
qed

lemma close_open_m:
  "open_m (snd (close drv s)) =
     (open_m s \<and>
      status (drv (trace (sendCloseCmd drv s)) (ViClose (device_m s))) <s VI_SUCCESS)"
  by (simp add: close_def sendCloseCmd_def Let_def split_beta viCall_def fst_processStatus
        processStatus_fields write_msg_fields)

lemma close_trace:
  assumes "open_m s"
  shows "trace (snd (close drv s)) =
           trace (sendCloseCmd drv s) @ ViClose (device_m s) #
           (if status (drv (trace (sendCloseCmd drv s)) (ViClose (device_m s))) <s VI_SUCCESS
            then [ViStatusDesc (device_m s)
                    (status (drv (trace (sendCloseCmd drv s)) (ViClose (device_m s))))]
            else [])"
  using assms
  by (simp add: close_def sendCloseCmd_def Let_def split_beta viCall_def fst_processStatus
        processStatus_fields processStatus_trace write_msg_fields)

lemma sendCloseCmd_heapFault:
  "heapFault (sendCloseCmd drv s) =
     (heapFault s \<or> (closeCmd_m s \<noteq> [] \<and> overruns (closeCmd_m s)))"
  by (simp add: sendCloseCmd_def split_beta write_msg_heapFault)

lemma close_heapFault:
  "open_m s \<Longrightarrow>
     heapFault (snd (close drv s)) =
       (heapFault s \<or> (closeCmd_m s \<noteq> [] \<and> overruns (closeCmd_m s)))"
  by (simp add: close_def Let_def split_beta viCall_def processStatus_fields
        write_msg_heapFault)

lemma close_twice_more:
  assumes "fst (close drv s1)"
  shows "close drv (snd (close drv s1)) = (True, snd (close drv s1))
         \<and> close drv (snd (close drv (snd (close drv s1)))) = (True, snd (close drv s1))"
proof -
  from assms have "\<not> open_m (snd (close drv s1))"
    by (simp add: fst_close)
  then show ?thesis by (simp add: close_not_open)
qed

lemma open_device_success_open:
  "fst (open_device drv d m t s) \<Longrightarrow> open_m (snd (open_device drv d m t s))"
  by (simp add: open_device_def viCall_def Let_def split_beta fst_processStatus
        processStatus_ok processStatus_fields split: if_splits)

text \<open>
  Claim C8, as amended. On a device that is not open, \<open>close\<close> returns true and leaves the
  object as it was, history included: it makes no driver call. After a successful \<open>open\<close>
  the device is open, and the \<open>close\<close> that follows calls \<open>viClose\<close> on the handle; it returns
  true exactly when the driver accepts that call, and the device is open afterwards
  exactly when the driver refuses it. (An allocation is overrun on the way only by a
  registered command too long for \<open>ViUInt32\<close>.) When the driver accepts the call, closing
  again, and again, returns true and changes nothing.
\<close>

theorem close_idempotent:
  "(\<not> open_m s \<longrightarrow> close drv s = (True, s) \<and> trace (snd (close drv s)) = trace s)
   \<and> (fst (open_device drv d m t s0) \<longrightarrow>
        open_m (snd (open_device drv d m t s0))
        \<and> trace (snd (close drv (snd (open_device drv d m t s0)))) =
             trace (sendCloseCmd drv (snd (open_device drv d m t s0)))
             @ ViClose (device_m (snd (open_device drv d m t s0)))
             # (if status (drv (trace (sendCloseCmd drv (snd (open_device drv d m t s0))))
                             (ViClose (device_m (snd (open_device drv d m t s0))))) <s VI_SUCCESS
                then [ViStatusDesc (device_m (snd (open_device drv d m t s0)))
                        (status (drv (trace (sendCloseCmd drv (snd (open_device drv d m t s0))))
                                  (ViClose (device_m (snd (open_device drv d m t s0))))))]
                else [])
        \<and> fst (close drv (snd (open_device drv d m t s0))) =
             (\<not> status (drv (trace (sendCloseCmd drv (snd (open_device drv d m t s0))))
                          (ViClose (device_m (snd (open_device drv d m t s0))))) <s VI_SUCCESS)
        \<and> isOpen (snd (close drv (snd (open_device drv d m t s0)))) =
             (status (drv (trace (sendCloseCmd drv (snd (open_device drv d m t s0))))
                        (ViClose (device_m (snd (open_device drv d m t s0))))) <s VI_SUCCESS)
        \<and> heapFault (snd (close drv (snd (open_device drv d m t s0)))) =
             (heapFault (snd (open_device drv d m t s0))
              \<or> (closeCmd_m (snd (open_device drv d m t s0)) \<noteq> []
                  \<and> overruns (closeCmd_m (snd (open_device drv d m t s0))))))
   \<and> (fst (open_device drv d m t s0)
        \<and> \<not> status (drv (trace (sendCloseCmd drv (snd (open_device drv d m t s0))))
                       (ViClose (device_m (snd (open_device drv d m t s0))))) <s VI_SUCCESS \<longrightarrow>
        fst (close drv (snd (open_device drv d m t s0)))
        \<and> close drv (snd (close drv (snd (open_device drv d m t s0))))
             = (True, snd (close drv (snd (open_device drv d m t s0))))
        \<and> close drv (snd (close drv (snd (close drv (snd (open_device drv d m t s0))))))
             = (True, snd (close drv (snd (open_device drv d m t s0)))))"
proof -
  let ?s1 = "snd (open_device drv d m t s0)"
  let ?rc = "drv (trace (sendCloseCmd drv ?s1)) (ViClose (device_m ?s1))"
  have a: "\<not> open_m s \<longrightarrow> close drv s = (True, s) \<and> trace (snd (close drv s)) = trace s"
    by (simp add: close_not_open)
  have o: "open_m ?s1" if "fst (open_device drv d m t s0)"
    using that by (rule open_device_success_open)
  have r: "fst (close drv ?s1) = (\<not> status ?rc <s VI_SUCCESS)"
    and i: "isOpen (snd (close drv ?s1)) = (status ?rc <s VI_SUCCESS)"
    if "fst (open_device drv d m t s0)"
    using o [OF that] by (simp_all add: fst_close close_open_m isOpen_def)
  have tr: "trace (snd (close drv ?s1)) =
             trace (sendCloseCmd drv ?s1) @ ViClose (device_m ?s1)
             # (if status ?rc <s VI_SUCCESS then [ViStatusDesc (device_m ?s1) (status ?rc)]
                else [])"
    if "fst (open_device drv d m t s0)"
    using o [OF that] by (rule close_trace)
  have hf: "heapFault (snd (close drv ?s1)) =
             (heapFault ?s1 \<or> (closeCmd_m ?s1 \<noteq> [] \<and> overruns (closeCmd_m ?s1)))"
    if "fst (open_device drv d m t s0)"
    using o [OF that] by (rule close_heapFault)
  have c: "fst (close drv ?s1)
        \<and> close drv (snd (close drv ?s1)) = (True, snd (close drv ?s1))
        \<and> close drv (snd (close drv (snd (close drv ?s1)))) = (True, snd (close drv ?s1))"
    if "fst (open_device drv d m t s0)" and "\<not> status ?rc <s VI_SUCCESS"
  proof -
    have f: "fst (close drv ?s1)"
      using r [OF that(1)] that(2) by simp
    then show ?thesis
      using close_twice_more [OF f] by simp
  qed
  show ?thesis
    using a o r i tr hf c by blast
qed

text \<open>
  Claim C8 as stated fails when the driver refuses \<open>viClose\<close>: the \<open>open\<close> succeeds, and the
  \<open>close\<close> after it and the next one both return false.
\<close>

lemma open_ok_dev_init:
  "open_device drv_ok ''USB0::INSTR'' 0 2000 dev_init =
     (True, dev_open\<lparr>trace := [ViOpen 1 ''USB0::INSTR'' 0 2000,
                                ViGetAttribute 1 VI_ATTR_TERMCHAR]\<rparr>)"
  by (simp add: open_device_def viCall_def Let_def split_beta processStatus_ok c_str_resource
        drv_ok_def reply_ok_succeeds dev_init_def dev_open_def mem_clear_def)
     (simp add: reply_ok_def)

lemma open_no_close_dev_init:
  "fst (open_device drv_no_close ''USB0::INSTR'' 0 2000 dev_init)"
  by (simp add: open_device_def viCall_def Let_def split_beta processStatus_ok fst_processStatus
        drv_no_close_def reply_ok_succeeds dev_init_def mem_clear_def)

theorem close_after_open_refused:
  "fst (open_device drv_no_close ''USB0::INSTR'' 0 2000 dev_init)
   \<and> \<not> fst (close drv_no_close (snd (open_device drv_no_close ''USB0::INSTR'' 0 2000 dev_init)))
   \<and> \<not> fst (close drv_no_close (snd (close drv_no_close
              (snd (open_device drv_no_close ''USB0::INSTR'' 0 2000 dev_init)))))"
proof -
  let ?s1 = "snd (open_device drv_no_close ''USB0::INSTR'' 0 2000 dev_init)"
  have refused: "status (drv_no_close tr (ViClose h)) <s VI_SUCCESS" for tr h
    by (simp add: drv_no_close_def reply_err_fails)
  have o: "open_m ?s1"
    using open_no_close_dev_init by (rule open_device_success_open)
  have o2: "open_m (snd (close drv_no_close ?s1))"
    using o by (simp add: close_open_m refused)
  have o3: "open_m (snd (close drv_no_close (snd (close drv_no_close ?s1))))"
    using o2 by (simp add: close_open_m refused)
  show ?thesis
    using open_no_close_dev_init o2 o3 by (simp add: fst_close)
qed

text \<open>A run of the amended C8 on a driver that accepts every call.\<close>

theorem close_idempotent_witness:
  "\<not> open_m dev_init \<and> close drv_ok dev_init = (True, dev_init)
   \<and> fst (open_device drv_ok ''USB0::INSTR'' 0 2000 dev_init)
   \<and> fst (close drv_ok (snd (open_device drv_ok ''USB0::INSTR'' 0 2000 dev_init)))
   \<and> \<not> isOpen (snd (close drv_ok (snd (open_device drv_ok ''USB0::INSTR'' 0 2000 dev_init))))
   \<and> fst (close drv_ok (snd (close drv_ok (snd (open_device drv_ok ''USB0::INSTR'' 0 2000 dev_init)))))
   \<and> fst (close drv_ok (snd (close drv_ok (snd (close drv_ok
             (snd (open_device drv_ok ''USB0::INSTR'' 0 2000 dev_init)))))))"
proof -
  let ?s1 = "snd (open_device drv_ok ''USB0::INSTR'' 0 2000 dev_init)"
  have n: "\<not> open_m dev_init"
    by (simp add: dev_init_def mem_clear_def)
  have o: "fst (open_device drv_ok ''USB0::INSTR'' 0 2000 dev_init)"
    by (simp add: open_ok_dev_init)
  have acc: "\<not> status (drv_ok (trace (sendCloseCmd drv_ok ?s1)) (ViClose (device_m ?s1)))
               <s VI_SUCCESS"
    by (simp add: drv_ok_def reply_ok_succeeds)
  note inst = close_idempotent [of dev_init drv_ok "''USB0::INSTR''" 0 2000 dev_init]
  from inst n have p1: "close drv_ok dev_init = (True, dev_init)"
    by blast
  from inst o acc have p2: "fst (close drv_ok ?s1)"
    and p3: "close drv_ok (snd (close drv_ok ?s1)) = (True, snd (close drv_ok ?s1))"
    and p4: "close drv_ok (snd (close drv_ok (snd (close drv_ok ?s1))))
               = (True, snd (close drv_ok ?s1))"
    by blast+
  from inst o acc have p5: "\<not> isOpen (snd (close drv_ok ?s1))"
    by blast
  from p3 p4 have p6: "fst (close drv_ok (snd (close drv_ok ?s1)))"
    and p7: "fst (close drv_ok (snd (close drv_ok (snd (close drv_ok ?s1)))))"
    by simp_all
  show ?thesis using n p1 o p2 p5 p6 p7 by (intro conjI)
qed

subsection \<open>open\<close>

lemma open_device_termchar_state:
  assumes init: "initialized_m s"
    and opened: "\<not> status (drv (trace s) (ViOpen (session_m s) (c_str d) m t)) <s VI_SUCCESS"
    and noterm: "status (drv (trace s @ [ViOpen (session_m s) (c_str d) m t])
                   (ViGetAttribute (outHandle (drv (trace s) (ViOpen (session_m s) (c_str d) m t)))
                      VI_ATTR_TERMCHAR)) <s VI_SUCCESS"
  shows "open_device drv d m t s =
           (False, snd (close drv
              (s\<lparr>timeout_m := t,
                 device_m := outHandle (drv (trace s) (ViOpen (session_m s) (c_str d) m t)),
                 open_m := True,
                 termChar_m := ucast (outAttr (drv (trace s @ [ViOpen (session_m s) (c_str d) m t])
                    (ViGetAttribute (outHandle (drv (trace s) (ViOpen (session_m s) (c_str d) m t)))
                       VI_ATTR_TERMCHAR))),
                 trace := trace s @
                   [ViOpen (session_m s) (c_str d) m t,
                    ViGetAttribute (outHandle (drv (trace s) (ViOpen (session_m s) (c_str d) m t)))
                       VI_ATTR_TERMCHAR,
                    ViStatusDesc (outHandle (drv (trace s) (ViOpen (session_m s) (c_str d) m t)))
                      (status (drv (trace s @ [ViOpen (session_m s) (c_str d) m t])
                        (ViGetAttribute
                           (outHandle (drv (trace s) (ViOpen (session_m s) (c_str d) m t)))
                           VI_ATTR_TERMCHAR)))],
                 lastError_m := c_str ((buffer ERROR_MSG_MAX (outBuf (drv
                    (trace s @
                      [ViOpen (session_m s) (c_str d) m t,
                       ViGetAttribute
                         (outHandle (drv (trace s) (ViOpen (session_m s) (c_str d) m t)))
                         VI_ATTR_TERMCHAR])
                    (ViStatusDesc (outHandle (drv (trace s) (ViOpen (session_m s) (c_str d) m t)))
                      (status (drv (trace s @ [ViOpen (session_m s) (c_str d) m t])
                        (ViGetAttribute
                           (outHandle (drv (trace s) (ViOpen (session_m s) (c_str d) m t)))
                           VI_ATTR_TERMCHAR)))))))
                    [ERROR_MSG_MAX - 1 := CHR 0x00])\<rparr>)))"
  using assms
  by (simp add: open_device_def viCall_def Let_def split_beta processStatus_ok
        processStatus_def del: One_nat_def)

text \<open>
  Claim C2, as amended. When the handle is opened and the fetch of the terminator then
  fails, \<open>open\<close> returns false after handing the object \<open>s7\<close> (open, the new handle in
  \<open>device_\<close>, the failure described in the last error) to \<open>close\<close>. \<open>close\<close> writes the
  registered command, if any, and then calls \<open>viClose\<close> on the new handle, as the history
  shows. Afterwards the device is open exactly when the driver refused that very call:
  it is not open when \<open>viClose\<close> succeeded and still open when it failed. An allocation
  is overrun on the way only by a registered command too long for \<open>ViUInt32\<close>.
\<close>

theorem open_device_termchar_failure:
  assumes init: "initialized_m s"
    and opened: "\<not> status (drv (trace s) (ViOpen (session_m s) (c_str d) m t)) <s VI_SUCCESS"
    and noterm: "status (drv (trace s @ [ViOpen (session_m s) (c_str d) m t])
                   (ViGetAttribute (outHandle (drv (trace s) (ViOpen (session_m s) (c_str d) m t)))
                      VI_ATTR_TERMCHAR)) <s VI_SUCCESS"
  shows "let h = outHandle (drv (trace s) (ViOpen (session_m s) (c_str d) m t));
             ra = drv (trace s @ [ViOpen (session_m s) (c_str d) m t])
                    (ViGetAttribute h VI_ATTR_TERMCHAR);
             failed = trace s @ [ViOpen (session_m s) (c_str d) m t,
                                 ViGetAttribute h VI_ATTR_TERMCHAR];
             s7 = s\<lparr>timeout_m := t, device_m := h, open_m := True,
                    termChar_m := ucast (outAttr ra),
                    trace := failed @ [ViStatusDesc h (status ra)],
                    lastError_m :=
                      c_str ((buffer ERROR_MSG_MAX
                                (outBuf (drv failed (ViStatusDesc h (status ra)))))
                             [ERROR_MSG_MAX - 1 := CHR 0x00])\<rparr>;
             rc = drv (trace (sendCloseCmd drv s7)) (ViClose h)
         in \<not> fst (open_device drv d m t s)
            \<and> open_device drv d m t s = (False, snd (close drv s7))
            \<and> (\<exists>w. trace (sendCloseCmd drv s7) = trace s7 @ w \<and> list_all isWriteEvent w)
            \<and> trace (snd (open_device drv d m t s)) =
                 trace (sendCloseCmd drv s7) @ ViClose h #
                 (if status rc <s VI_SUCCESS then [ViStatusDesc h (status rc)] else [])
            \<and> isOpen (snd (open_device drv d m t s)) = (status rc <s VI_SUCCESS)
            \<and> heapFault (snd (open_device drv d m t s)) =
                 (heapFault s \<or> (closeCmd_m s \<noteq> [] \<and> overruns (closeCmd_m s)))"
proof -
  define h where "h = outHandle (drv (trace s) (ViOpen (session_m s) (c_str d) m t))"
  define ra where "ra = drv (trace s @ [ViOpen (session_m s) (c_str d) m t])
                          (ViGetAttribute h VI_ATTR_TERMCHAR)"
  define failed where "failed = trace s @ [ViOpen (session_m s) (c_str d) m t,
                                 ViGetAttribute h VI_ATTR_TERMCHAR]"
  define s7 where "s7 = s\<lparr>timeout_m := t, device_m := h, open_m := True,
                    termChar_m := ucast (outAttr ra),
                    trace := failed @ [ViStatusDesc h (status ra)],
                    lastError_m :=
                      c_str ((buffer ERROR_MSG_MAX
                                (outBuf (drv failed (ViStatusDesc h (status ra)))))
                             [ERROR_MSG_MAX - 1 := CHR 0x00])\<rparr>"
  define rc where "rc = drv (trace (sendCloseCmd drv s7)) (ViClose h)"
  have o: "open_device drv d m t s = (False, snd (close drv s7))"
    unfolding open_device_termchar_state [OF assms]
    by (simp add: s7_def failed_def ra_def h_def del: One_nat_def)
  have op: "open_m s7" and dv: "device_m s7 = h"
    by (simp_all add: s7_def)
  have w: "\<exists>w. trace (sendCloseCmd drv s7) = trace s7 @ w \<and> list_all isWriteEvent w"
    by (rule sendCloseCmd_trace)
  have tr: "trace (snd (open_device drv d m t s)) =
                 trace (sendCloseCmd drv s7) @ ViClose h #
                 (if status rc <s VI_SUCCESS then [ViStatusDesc h (status rc)] else [])"
    using close_trace [OF op, of drv] by (simp add: o dv rc_def)
  have io: "isOpen (snd (open_device drv d m t s)) = (status rc <s VI_SUCCESS)"
    using op by (simp add: o isOpen_def close_open_m dv rc_def)
  have hf: "heapFault (snd (open_device drv d m t s)) =
                 (heapFault s \<or> (closeCmd_m s \<noteq> [] \<and> overruns (closeCmd_m s)))"
    using close_heapFault [OF op, of drv] by (simp add: o s7_def)
  have "\<not> fst (open_device drv d m t s)
            \<and> open_device drv d m t s = (False, snd (close drv s7))
            \<and> (\<exists>w. trace (sendCloseCmd drv s7) = trace s7 @ w \<and> list_all isWriteEvent w)
            \<and> trace (snd (open_device drv d m t s)) =
                 trace (sendCloseCmd drv s7) @ ViClose h #
                 (if status rc <s VI_SUCCESS then [ViStatusDesc h (status rc)] else [])
            \<and> isOpen (snd (open_device drv d m t s)) = (status rc <s VI_SUCCESS)
            \<and> heapFault (snd (open_device drv d m t s)) =
                 (heapFault s \<or> (closeCmd_m s \<noteq> [] \<and> overruns (closeCmd_m s)))"
    using o w tr io hf by simp
  then show ?thesis
    unfolding Let_def rc_def s7_def failed_def ra_def h_def .
qed

text \<open>
  Claim C2 as stated fails: with a driver that opens the handle, refuses the terminator
  attribute and then refuses \<open>viClose\<close> as well, \<open>open\<close> returns false and the device is
  still marked open.
\<close>

theorem open_device_left_open:
  "initialized_m dev_init
   \<and> \<not> status (drv_no_termchar_no_close (trace dev_init)
          (ViOpen (session_m dev_init) (c_str ''USB0::INSTR'') 0 2000)) <s VI_SUCCESS
   \<and> status (drv_no_termchar_no_close
          (trace dev_init @ [ViOpen (session_m dev_init) (c_str ''USB0::INSTR'') 0 2000])
          (ViGetAttribute (outHandle (drv_no_termchar_no_close (trace dev_init)
             (ViOpen (session_m dev_init) (c_str ''USB0::INSTR'') 0 2000))) VI_ATTR_TERMCHAR)) <s VI_SUCCESS
   \<and> \<not> fst (open_device drv_no_termchar_no_close ''USB0::INSTR'' 0 2000 dev_init)
   \<and> isOpen (snd (open_device drv_no_termchar_no_close ''USB0::INSTR'' 0 2000 dev_init))"
proof -
  have i: "initialized_m dev_init"
    by (simp add: dev_init_def)
  have a: "\<not> status (drv_no_termchar_no_close (trace dev_init)
          (ViOpen (session_m dev_init) (c_str ''USB0::INSTR'') 0 2000)) <s VI_SUCCESS"
    by (simp add: drv_no_termchar_no_close_def reply_ok_succeeds)
  have b: "status (drv_no_termchar_no_close
          (trace dev_init @ [ViOpen (session_m dev_init) (c_str ''USB0::INSTR'') 0 2000])
          (ViGetAttribute (outHandle (drv_no_termchar_no_close (trace dev_init)
             (ViOpen (session_m dev_init) (c_str ''USB0::INSTR'') 0 2000))) VI_ATTR_TERMCHAR)) <s VI_SUCCESS"
    by (simp add: drv_no_termchar_no_close_def reply_err_fails)
  have refused: "status (drv_no_termchar_no_close tr (ViClose h)) <s VI_SUCCESS" for tr h
    by (simp add: drv_no_termchar_no_close_def reply_err_fails)
  have f: "\<not> fst (open_device drv_no_termchar_no_close ''USB0::INSTR'' 0 2000 dev_init)"
    unfolding open_device_termchar_state [OF i a b] by simp
  have o: "isOpen (snd (open_device drv_no_termchar_no_close ''USB0::INSTR'' 0 2000 dev_init))"
    unfolding open_device_termchar_state [OF i a b]
    by (simp add: isOpen_def close_open_m refused)
  show ?thesis using i a b f o by (intro conjI)
qed

text \<open>A run of the amended C2: the terminator fetch fails, \<open>viClose\<close> succeeds.\<close>

theorem open_device_termchar_failure_witness:
  "\<not> fst (open_device drv_no_termchar ''USB0::INSTR'' 0 2000 dev_init)
   \<and> \<not> isOpen (snd (open_device drv_no_termchar ''USB0::INSTR'' 0 2000 dev_init))
   \<and> trace (snd (open_device drv_no_termchar ''USB0::INSTR'' 0 2000 dev_init)) =
        [ViOpen 1 ''USB0::INSTR'' 0 2000, ViGetAttribute 1 VI_ATTR_TERMCHAR,
         ViStatusDesc 1 (status reply_err), ViClose 1]"
proof -
  have i: "initialized_m dev_init"
    by (simp add: dev_init_def)
  have a: "\<not> status (drv_no_termchar (trace dev_init)
          (ViOpen (session_m dev_init) (c_str ''USB0::INSTR'') 0 2000)) <s VI_SUCCESS"
    by (simp add: drv_no_termchar_def reply_ok_succeeds)
  have b: "status (drv_no_termchar
          (trace dev_init @ [ViOpen (session_m dev_init) (c_str ''USB0::INSTR'') 0 2000])
          (ViGetAttribute (outHandle (drv_no_termchar (trace dev_init)
             (ViOpen (session_m dev_init) (c_str ''USB0::INSTR'') 0 2000))) VI_ATTR_TERMCHAR)) <s VI_SUCCESS"
    by (simp add: drv_no_termchar_def reply_err_fails)
  have accepted: "\<not> status (drv_no_termchar tr (ViClose h)) <s VI_SUCCESS" for tr h
    by (simp add: drv_no_termchar_def reply_ok_succeeds)
  have h: "outHandle (drv_no_termchar tr (ViOpen x y z u)) = 1" for tr x y z u
    by (simp add: drv_no_termchar_def reply_ok_def)
  have ra: "drv_no_termchar tr (ViGetAttribute x y) = reply_err" for tr x y
    by (simp add: drv_no_termchar_def)
  have flds: "closeCmd_m dev_init = []" "trace dev_init = []" "session_m dev_init = 1"
    by (simp_all add: dev_init_def mem_clear_def)
  note inst = open_device_termchar_failure [OF i a b, unfolded Let_def]
  note ret = inst [THEN conjunct1]
  note hist = inst [THEN conjunct2, THEN conjunct2, THEN conjunct2, THEN conjunct1]
  note flag = inst [THEN conjunct2, THEN conjunct2, THEN conjunct2, THEN conjunct2,
                    THEN conjunct1]
  have f: "\<not> fst (open_device drv_no_termchar ''USB0::INSTR'' 0 2000 dev_init)"
    by (rule ret)
  have o: "\<not> isOpen (snd (open_device drv_no_termchar ''USB0::INSTR'' 0 2000 dev_init))"
    unfolding flag by (rule accepted)
  have t: "trace (snd (open_device drv_no_termchar ''USB0::INSTR'' 0 2000 dev_init)) =
        [ViOpen 1 ''USB0::INSTR'' 0 2000, ViGetAttribute 1 VI_ATTR_TERMCHAR,
         ViStatusDesc 1 (status reply_err), ViClose 1]"
    unfolding hist
    by (simp add: accepted h ra flds sendCloseCmd_empty c_str_resource del: One_nat_def)
  show ?thesis using f o t by (intro conjI)
qed

subsection \<open>Framing\<close>

text \<open>
  The bytes copied into the write buffer determine the message: converting them back gives
  the same characters, so the copy encodes nothing.
\<close>

lemma byte_of_char_inverse: "char_of (unat (of_char c :: ViByte)) = c"
proof -
  have "unat (of_char c :: ViByte) = (of_char c :: nat)"
    by (cases c) (simp add: unat_word_ariths unat_of_nat)
  then show ?thesis by simp
qed

lemma bytes_of_string_inverse:
  "map (\<lambda>b. char_of (unat b)) (map of_char msg :: ViByte list) = msg"
  by (induction msg) (simp_all add: byte_of_char_inverse)

lemma unat_of_nat_fits: "n < 2 ^ 32 \<Longrightarrow> unat (word_of_nat n :: ViUInt32) = n"
  by (simp add: unat_of_nat)

lemma bufSize_fits:
  "length msg + 1 < 2 ^ 32 \<Longrightarrow>
     unat (word_of_nat (length msg + 1) :: ViUInt32) = length msg + 1"
  by (rule unat_of_nat_fits)

lemma bufSize_pred:
  assumes "length msg + 1 < 2 ^ 32"
  shows "unat ((word_of_nat (length msg + 1) :: ViUInt32) - 1) = length msg"
proof -
  have "(word_of_nat (length msg + 1) :: ViUInt32) - 1 = word_of_nat (length msg)"
    by simp
  moreover have "length msg < 2 ^ 32"
    using assms by simp
  ultimately show ?thesis
    by (simp only: unat_of_nat_fits)
qed

lemma frame_image: "take (length xs + 1) ((xs @ [z])[length xs := tc]) = xs @ [tc]"
  by simp

lemma write_msg_image:
  assumes "length msg + 1 < 2 ^ 32"
  shows "take (unat (word_of_nat (length msg + 1) :: ViUInt32))
           ((map of_char msg @ [0])[unat ((word_of_nat (length msg + 1) :: ViUInt32) - 1) := tc])
         = map of_char msg @ [tc]"
  using frame_image [of "map of_char msg" 0 tc]
  by (simp only: bufSize_fits [OF assms] bufSize_pred [OF assms] length_map)

lemma write_msg_fits:
  assumes "length msg + 1 < 2 ^ 32"
  shows "write_msg drv msg s =
           write_buf drv (map of_char msg @ [termChar_m s]) (word_of_nat (length msg + 1)) s"
proof -
  have "write_msg drv msg s =
          write_buf drv (map of_char msg @ [termChar_m s]) (word_of_nat (length msg + 1))
            (s\<lparr>heapFault := heapFault s \<or> length msg + 1 < length msg + 1\<rparr>)"
    apply (simp only: write_msg_def Let_def write_msg_image [OF assms])
    apply (simp only: bufSize_fits [OF assms])
    done
  then show ?thesis by simp
qed

lemma write_buf_trace_open:
  "initialized_m s \<Longrightarrow> open_m s \<Longrightarrow>
     trace (snd (write_buf drv b n s)) =
       trace s @ ViWrite (device_m s) b n #
         (if status (drv (trace s) (ViWrite (device_m s) b n)) <s VI_SUCCESS
          then [ViStatusDesc (device_m s) (status (drv (trace s) (ViWrite (device_m s) b n)))]
          else [])"
  by (simp add: write_buf_def viCall_def Let_def split_beta processStatus_trace)

lemma open_device_success_state:
  assumes "fst (open_device drv d m t s)"
  shows "initialized_m (snd (open_device drv d m t s))
     \<and> open_m (snd (open_device drv d m t s))
     \<and> termChar_m (snd (open_device drv d m t s)) =
         ucast (outAttr (drv (trace s @ [ViOpen (session_m s) (c_str d) m t])
                  (ViGetAttribute (outHandle (drv (trace s) (ViOpen (session_m s) (c_str d) m t)))
                     VI_ATTR_TERMCHAR)))"
  using assms
  by (simp add: open_device_def viCall_def Let_def split_beta fst_processStatus
        processStatus_ok processStatus_fields split: if_splits)

text \<open>
  Framing of a message whose size fits. On an initialized session with an open device, and
  for a message whose length plus one fits \<open>ViUInt32\<close>, \<open>write\<close> makes one \<open>viWrite\<close> call:
  its buffer is the bytes of the message followed by the stored terminator, nothing else,
  and the length it passes is the length of the message plus one. (A status description
  follows when the driver refuses the write.) No allocation is overrun. The stored
  terminator is the value that the last successful \<open>open\<close> read from the terminator
  attribute.
\<close>

theorem write_msg_frames_message:
  "(initialized_m s \<and> open_m s \<and> length msg + 1 < 2 ^ 32 \<longrightarrow>
      trace (snd (write_msg drv msg s)) =
        trace s @
        ViWrite (device_m s) (map of_char msg @ [termChar_m s]) (word_of_nat (length msg + 1)) #
        (if status (drv (trace s) (ViWrite (device_m s) (map of_char msg @ [termChar_m s])
                      (word_of_nat (length msg + 1)))) <s VI_SUCCESS
         then [ViStatusDesc (device_m s)
                 (status (drv (trace s) (ViWrite (device_m s) (map of_char msg @ [termChar_m s])
                      (word_of_nat (length msg + 1)))))]
         else [])
      \<and> unat (word_of_nat (length msg + 1) :: ViUInt32) = length msg + 1
      \<and> length (map of_char msg @ [termChar_m s] :: ViByte list) = length msg + 1
      \<and> take (length msg) (map of_char msg @ [termChar_m s]) = (map of_char msg :: ViByte list)
      \<and> last (map of_char msg @ [termChar_m s]) = termChar_m s
      \<and> heapFault (snd (write_msg drv msg s)) = heapFault s)
   \<and> (fst (open_device drv d m t s0) \<longrightarrow>
        initialized_m (snd (open_device drv d m t s0))
        \<and> open_m (snd (open_device drv d m t s0))
        \<and> termChar_m (snd (open_device drv d m t s0)) =
             ucast (outAttr (drv (trace s0 @ [ViOpen (session_m s0) (c_str d) m t])
                      (ViGetAttribute (outHandle (drv (trace s0) (ViOpen (session_m s0) (c_str d) m t)))
                         VI_ATTR_TERMCHAR))))"
proof -
  have a: "trace (snd (write_msg drv msg s)) =
        trace s @
        ViWrite (device_m s) (map of_char msg @ [termChar_m s]) (word_of_nat (length msg + 1)) #
        (if status (drv (trace s) (ViWrite (device_m s) (map of_char msg @ [termChar_m s])
                      (word_of_nat (length msg + 1)))) <s VI_SUCCESS
         then [ViStatusDesc (device_m s)
                 (status (drv (trace s) (ViWrite (device_m s) (map of_char msg @ [termChar_m s])
                      (word_of_nat (length msg + 1)))))]
         else [])
      \<and> heapFault (snd (write_msg drv msg s)) = heapFault s"
    if i: "initialized_m s" and o: "open_m s" and l: "length msg + 1 < 2 ^ 32"
    unfolding write_msg_fits [OF l]
    using write_buf_trace_open [OF i o] write_buf_heapFault by blast
  have b: "unat (word_of_nat (length msg + 1) :: ViUInt32) = length msg + 1"
    if "length msg + 1 < 2 ^ 32"
    using that by (rule bufSize_fits)
  show ?thesis
    using a b open_device_success_state [of drv d m t s0] by simp
qed

lemma write_msg_wraps:
  assumes "length msg = 4294967295"
  shows "write_msg drv msg s = write_buf drv [] 0 (s\<lparr>heapFault := True\<rparr>)"
proof -
  have z: "(word_of_nat (length msg + 1) :: ViUInt32) = 0"
    by (simp add: assms)
  have "write_msg drv msg s =
          write_buf drv (take (unat (0 :: ViUInt32))
             ((map of_char msg @ [0])[unat ((0 :: ViUInt32) - 1) := termChar_m s])) 0
            (s\<lparr>heapFault := heapFault s \<or> unat (0 :: ViUInt32) < length msg + 1\<rparr>)"
    by (simp only: write_msg_def Let_def z)
  then show ?thesis by simp
qed

text \<open>
  Claim C3 says that \<open>write\<close> hands the driver the message and the terminator, one byte
  more than the message, for every message. The size is cast to \<open>ViUInt32\<close> before the
  buffer is allocated: for a message of \<open>2^32 - 1\<close> bytes the cast gives 0, the allocation
  has no room at all, and copying the message runs past it (\<open>heapFault\<close>, clear before the
  call, is set after it). The source comment promises room for the characters of the
  message and the terminator.
\<close>

theorem write_msg_oversized_message:
  "initialized_m dev_open \<and> open_m dev_open \<and> \<not> heapFault dev_open
   \<and> length (replicate 4294967295 CHR ''A'') + 1 = 4294967296
   \<and> (word_of_nat (length (replicate 4294967295 CHR ''A'') + 1) :: ViUInt32) = 0
   \<and> heapFault (snd (write_msg drv_ok (replicate 4294967295 CHR ''A'') dev_open))"
proof -
  have l: "length (replicate 4294967295 CHR ''A'') = 4294967295"
    by (rule length_replicate)
  have i: "initialized_m dev_open" and o: "open_m dev_open" and c: "\<not> heapFault dev_open"
    by (simp_all add: dev_open_def dev_init_def mem_clear_def)
  have n: "length (replicate 4294967295 CHR ''A'') + 1 = 4294967296"
    by (simp only: l)
  have z: "(word_of_nat (length (replicate 4294967295 CHR ''A'') + 1) :: ViUInt32) = 0"
    by (simp only: n) simp
  have w: "write_msg drv_ok (replicate 4294967295 CHR ''A'') dev_open
             = write_buf drv_ok [] 0 (dev_open\<lparr>heapFault := True\<rparr>)"
    by (rule write_msg_wraps [OF l])
  have h: "heapFault (snd (write_msg drv_ok (replicate 4294967295 CHR ''A'') dev_open))"
    unfolding w by (simp add: write_buf_heapFault)
  show ?thesis
    using i o c n z h by (intro conjI)
qed

text \<open>A run of the framing: \<open>*IDN?\<close> on a device whose terminator is a line feed.\<close>

theorem write_msg_frames_message_witness:
  "trace (snd (write_msg drv_ok ''*IDN?'' dev_open))
     = [ViWrite 1 (map of_char ''*IDN?'' @ [0x0A]) 6]
   \<and> unat (6 :: ViUInt32) = length ''*IDN?'' + 1
   \<and> termChar_m (snd (open_device drv_ok ''USB0::INSTR'' 0 2000 dev_init)) = 0x0A"
proof -
  have i: "initialized_m dev_open" and o: "open_m dev_open"
    and d: "device_m dev_open = 1" and t: "trace dev_open = []"
    and c: "termChar_m dev_open = 0x0A"
    by (simp_all add: dev_open_def dev_init_def mem_clear_def)
  have l: "length ''*IDN?'' + 1 < (2::nat) ^ 32"
    by simp
  have p: "fst (open_device drv_ok ''USB0::INSTR'' 0 2000 dev_init)"
    by (simp add: open_ok_dev_init)
  note inst = write_msg_frames_message
               [of dev_open "''*IDN?''" drv_ok "''USB0::INSTR''" 0 2000 dev_init]
  from inst i o l have a: "trace (snd (write_msg drv_ok ''*IDN?'' dev_open)) =
        trace dev_open @
        ViWrite (device_m dev_open) (map of_char ''*IDN?'' @ [termChar_m dev_open])
          (word_of_nat (length ''*IDN?'' + 1)) #
        (if status (drv_ok (trace dev_open) (ViWrite (device_m dev_open)
                      (map of_char ''*IDN?'' @ [termChar_m dev_open])
                      (word_of_nat (length ''*IDN?'' + 1)))) <s VI_SUCCESS
         then [ViStatusDesc (device_m dev_open)
                 (status (drv_ok (trace dev_open) (ViWrite (device_m dev_open)
                      (map of_char ''*IDN?'' @ [termChar_m dev_open])
                      (word_of_nat (length ''*IDN?'' + 1)))))]
         else [])"
    by blast
  from inst p have b: "termChar_m (snd (open_device drv_ok ''USB0::INSTR'' 0 2000 dev_init)) =
             ucast (outAttr (drv_ok (trace dev_init @ [ViOpen (session_m dev_init) (c_str ''USB0::INSTR'') 0 2000])
                      (ViGetAttribute (outHandle (drv_ok (trace dev_init)
                          (ViOpen (session_m dev_init) (c_str ''USB0::INSTR'') 0 2000)))
                         VI_ATTR_TERMCHAR)))"
    by blast
  have a': "trace (snd (write_msg drv_ok ''*IDN?'' dev_open))
     = [ViWrite 1 (map of_char ''*IDN?'' @ [0x0A]) 6]"
    unfolding a by (simp add: d t c drv_ok_def reply_ok_succeeds)
  have b': "termChar_m (snd (open_device drv_ok ''USB0::INSTR'' 0 2000 dev_init)) = 0x0A"
    unfolding b by (simp add: drv_ok_def reply_ok_def)
  have u: "unat (6 :: ViUInt32) = length ''*IDN?'' + 1"
    by simp
  show ?thesis using a' u b' by (intro conjI)
qed

subsection \<open>Operations on a device that is not open\<close>

lemma read_guard: "\<not> (initialized_m s \<and> open_m s) \<Longrightarrow> read drv n s = ([], s)"
  by (auto simp add: read_def)

lemma write_msg_guard_fits:
  assumes "\<not> (initialized_m s \<and> open_m s)" and "length msg + 1 < 2 ^ 32"
  shows "write_msg drv msg s = (False, s)"
  using assms(1) by (simp add: write_msg_fits [OF assms(2)] write_buf_guard)

text \<open>
  On an object on which \<open>open_\<close> implies \<open>initialized_\<close>, every operation that needs the
  device returns its failure value and leaves the whole object as it was (no driver call,
  same last error) when the device is not open or the session is not initialized. For
  \<open>write\<close> and \<open>query\<close> the message must fit \<open>ViUInt32\<close>: the buffer is filled before the
  guard is tested.
\<close>

lemma guarded_operations_under_invariant:
  assumes inv: "open_m s \<longrightarrow> initialized_m s"
    and guard: "\<not> open_m s \<or> \<not> initialized_m s"
    and fits: "length msg + 1 < 2 ^ 32"
    and fits_list: "length (join msgs (getCmdSeperator s)) + 1 < 2 ^ 32"
  shows "write_msg drv msg s = (False, s)"
    and "write_list drv msgs s = (False, s)"
    and "read drv n s = ([], s)"
    and "query drv msg s = ([], s)"
    and "setAttribute drv a v s = (False, s)"
    and "getScalarAttribute drv a p s = ((False, p), s)"
    and "getStringAttribute drv a s = ([], s)"
    and "getDeviceDescription drv ord s = ([], s)"
proof -
  from inv guard have n: "\<not> open_m s"
    by blast
  then have g: "\<not> (initialized_m s \<and> open_m s)"
    by simp
  show w: "write_msg drv msg s = (False, s)"
    using g fits by (rule write_msg_guard_fits)
  show "write_list drv msgs s = (False, s)"
    unfolding write_list_def using g fits_list by (rule write_msg_guard_fits)
  show "read drv n s = ([], s)"
    using g by (rule read_guard)
  show "query drv msg s = ([], s)"
    by (simp add: query_def w)
  show "setAttribute drv a v s = (False, s)"
    using n by (simp add: setAttribute_def)
  show "getScalarAttribute drv a p s = ((False, p), s)"
    using n by (simp add: getScalarAttribute_def)
  show "getStringAttribute drv a s = ([], s)"
    using n by (simp add: getStringAttribute_def)
  show "getDeviceDescription drv ord s = ([], s)"
    using n by (simp add: getDeviceDescription_def)
qed

text \<open>
  Claim C7 says that each of these operations, called while the device is not open or the
  session is not initialized, returns its failure value without a driver call. The four
  attribute operations test \<open>open_\<close> alone and rely on \<open>open_\<close> never being set without a
  session. The constructor does not give \<open>open_\<close> a value, so when the session is refused
  and the storage held a set \<open>open_\<close>, the object is not initialized, no device is open,
  and \<open>setAttribute\<close> still calls the driver and returns true.
\<close>

theorem uninitialized_setAttribute_reaches_driver:
  "\<not> isInitialized (VISADevice_ctor drv_no_session mem_open_only)
   \<and> fst (setAttribute drv_no_session VI_ATTR_TERMCHAR 0x0A
            (VISADevice_ctor drv_no_session mem_open_only))
   \<and> trace (snd (setAttribute drv_no_session VI_ATTR_TERMCHAR 0x0A
            (VISADevice_ctor drv_no_session mem_open_only)))
       = trace (VISADevice_ctor drv_no_session mem_open_only)
           @ [ViSetAttribute 0 VI_ATTR_TERMCHAR 0x0A]"
proof -
  have g: "status (drv_no_session (trace mem_open_only) ViOpenDefaultRM) <s VI_SUCCESS"
    by (simp add: drv_no_session_def reply_err_fails)
  have i: "\<not> isInitialized (VISADevice_ctor drv_no_session mem_open_only)"
    using g by (simp add: isInitialized_def ctor_initialized mem_open_only_def mem_clear_def)
  have o: "open_m (VISADevice_ctor drv_no_session mem_open_only)"
    by (simp add: ctor_open mem_open_only_def)
  have d: "device_m (VISADevice_ctor drv_no_session mem_open_only) = 0"
    by (simp add: VISADevice_ctor_def viCall_def Let_def split_beta processStatus_fields
          mem_open_only_def mem_clear_def)
  have a: "fst (setAttribute drv_no_session VI_ATTR_TERMCHAR 0x0A
            (VISADevice_ctor drv_no_session mem_open_only))"
    using o by (simp add: setAttribute_def viCall_def Let_def split_beta fst_processStatus
                  drv_no_session_def reply_ok_succeeds)
  have t: "trace (snd (setAttribute drv_no_session VI_ATTR_TERMCHAR 0x0A
            (VISADevice_ctor drv_no_session mem_open_only)))
       = trace (VISADevice_ctor drv_no_session mem_open_only)
           @ [ViSetAttribute 0 VI_ATTR_TERMCHAR 0x0A]"
    using o d by (simp add: setAttribute_def viCall_def Let_def split_beta processStatus_trace
                  drv_no_session_def reply_ok_succeeds)
  show ?thesis using i a t by (intro conjI)
qed

subsection \<open>Discovery\<close>

lemma c_str_no_null: "CHR 0x00 \<notin> set (c_str buf)"
  by (auto simp add: c_str_def dest: set_takeWhileD)

lemma c_str_short:
  assumes "0 < n"
  shows "length (c_str ((buffer n img)[n - 1 := CHR 0x00])) < n"
proof -
  let ?b = "(buffer n img)[n - 1 := CHR 0x00]"
  have len: "length ?b = n"
    by (simp add: buffer_def)
  have z: "?b ! (n - 1) = CHR 0x00"
    using assms len by (simp add: buffer_def)
  have "\<not> n - 1 < length (takeWhile (\<lambda>c. c \<noteq> CHR 0x00) ?b)"
  proof
    assume l: "n - 1 < length (takeWhile (\<lambda>c. c \<noteq> CHR 0x00) ?b)"
    then have "takeWhile (\<lambda>c. c \<noteq> CHR 0x00) ?b ! (n - 1) = CHR 0x00"
      using z by (simp only: takeWhile_nth)
    moreover have "takeWhile (\<lambda>c. c \<noteq> CHR 0x00) ?b ! (n - 1)
                     \<in> set (takeWhile (\<lambda>c. c \<noteq> CHR 0x00) ?b)"
      using l by (rule nth_mem)
    ultimately have "CHR 0x00 \<in> set (takeWhile (\<lambda>c. c \<noteq> CHR 0x00) ?b)"
      by simp
    then show False
      by (auto dest: set_takeWhileD)
  qed
  then show ?thesis
    using assms by (simp add: c_str_def)
qed

lemma truncated_c_str:
  "truncated (c_str ((buffer VI_FIND_BUFLEN img)[VI_FIND_BUFLEN - 1 := CHR 0x00]))"
  using c_str_short [of VI_FIND_BUFLEN img]
  by (simp add: truncated_def c_str_no_null VI_FIND_BUFLEN_def del: One_nat_def)

lemma truncated_Nil: "truncated []"
  by (simp add: truncated_def VI_FIND_BUFLEN_def)

lemma findNext_loop_inv:
  assumes "0 < k"
    and "\<forall>j. 0 < j \<and> j < length xs \<longrightarrow> truncated (xs ! j)"
  shows "length (fst (findNext_loop drv fl k n xs s)) = length xs
         \<and> (\<forall>j<k. fst (findNext_loop drv fl k n xs s) ! j = xs ! j)
         \<and> (\<forall>j. 0 < j \<and> j < length xs \<longrightarrow> truncated (fst (findNext_loop drv fl k n xs s) ! j))"
  using assms
proof (induction drv fl k n xs s rule: findNext_loop.induct)
  case (1 drv fl k n xs s)
  define r where "r = fst (viCall drv (ViFindNext fl) s)"
  define s1 where "s1 = snd (viCall drv (ViFindNext fl) s)"
  define ok where "ok = fst (processStatus drv (status r) s1)"
  define s2 where "s2 = snd (processStatus drv (status r) s1)"
  define buf where "buf = (buffer VI_FIND_BUFLEN (outBuf r))[VI_FIND_BUFLEN - 1 := CHR 0x00]"
  show ?case
  proof (cases "k < n \<and> ok")
    case True
    have step: "findNext_loop drv fl k n xs s
                  = findNext_loop drv fl (k + 1) n (xs[k := c_str buf]) s2"
      using True
      by (subst findNext_loop.simps)
         (simp add: Let_def split_beta r_def s1_def ok_def s2_def buf_def)
    have pre: "\<forall>j. 0 < j \<and> j < length (xs[k := c_str buf])
                 \<longrightarrow> truncated ((xs[k := c_str buf]) ! j)"
    proof (intro allI impI)
      fix j
      assume "0 < j \<and> j < length (xs[k := c_str buf])"
      then have j: "0 < j" "j < length xs"
        by simp_all
      have tr: "truncated (c_str buf)"
        unfolding buf_def by (rule truncated_c_str)
      show "truncated ((xs[k := c_str buf]) ! j)"
      proof (cases "k = j")
        case True
        then show ?thesis using j tr by simp
      next
        case False
        then show ?thesis using j "1.prems"(2) by simp
      qed
    qed
    have kk: "0 < k + 1" by simp
    have a: "k < n" and b: "fst (processStatus drv (status (fst (viCall drv (ViFindNext fl) s)))
                 (snd (viCall drv (ViFindNext fl) s)))"
      using True by (simp_all add: ok_def r_def s1_def)
    note IH = "1.IH" [OF a refl prod.collapse refl prod.collapse b refl
                 kk, folded r_def s1_def s2_def, folded buf_def, OF pre]
    show ?thesis
      unfolding step using IH by simp
  next
    case False
    have stop: "fst (findNext_loop drv fl k n xs s) = xs"
      using False
      by (subst findNext_loop.simps)
         (auto simp add: Let_def split_beta r_def s1_def ok_def s2_def buf_def)
    show ?thesis
      unfolding stop using "1.prems"(2) by simp
  qed
qed

lemma findNext_loop_step:
  assumes "0 < k" and "k < n" and "k < length xs"
    and "\<not> status (drv (trace s) (ViFindNext fl)) <s VI_SUCCESS"
    and "\<forall>j. 0 < j \<and> j < length xs \<longrightarrow> truncated (xs ! j)"
  shows "fst (findNext_loop drv fl k n xs s) ! k =
           c_str ((buffer VI_FIND_BUFLEN (outBuf (drv (trace s) (ViFindNext fl))))
                  [VI_FIND_BUFLEN - 1 := CHR 0x00])"
proof -
  let ?c = "c_str ((buffer VI_FIND_BUFLEN (outBuf (drv (trace s) (ViFindNext fl))))
                  [VI_FIND_BUFLEN - 1 := CHR 0x00])"
  have step: "findNext_loop drv fl k n xs s
                = findNext_loop drv fl (k + 1) n (xs[k := ?c])
                    (s\<lparr>trace := trace s @ [ViFindNext fl]\<rparr>)"
    using assms(2,4)
    by (subst findNext_loop.simps)
       (simp add: Let_def split_beta viCall_def processStatus_ok)
  have pre: "\<forall>j. 0 < j \<and> j < length (xs[k := ?c]) \<longrightarrow> truncated ((xs[k := ?c]) ! j)"
  proof (intro allI impI)
    fix j
    assume "0 < j \<and> j < length (xs[k := ?c])"
    then have j: "0 < j" "j < length xs"
      by simp_all
    show "truncated ((xs[k := ?c]) ! j)"
    proof (cases "k = j")
      case True
      then show ?thesis using j truncated_c_str by simp
    next
      case False
      then show ?thesis using j assms(5) by simp
    qed
  qed
  have kk: "0 < k + 1" by simp
  have "fst (findNext_loop drv fl (k + 1) n (xs[k := ?c])
               (s\<lparr>trace := trace s @ [ViFindNext fl]\<rparr>)) ! k = (xs[k := ?c]) ! k"
    using findNext_loop_inv [OF kk pre] by simp
  then show ?thesis
    unfolding step using assms(3) by simp
qed

lemma findNext_loop_succ:
  assumes "k < n"
    and "\<not> status (drv (trace s) (ViFindNext fl)) <s VI_SUCCESS"
  shows "findNext_loop drv fl k n xs s
           = findNext_loop drv fl (k + 1) n
               (xs[k := c_str ((buffer VI_FIND_BUFLEN (outBuf (drv (trace s) (ViFindNext fl))))
                               [VI_FIND_BUFLEN - 1 := CHR 0x00])])
               (s\<lparr>trace := trace s @ [ViFindNext fl]\<rparr>)"
  using assms
  by (subst findNext_loop.simps)
     (simp add: Let_def split_beta viCall_def processStatus_ok)

lemma truncated_update:
  assumes "\<forall>j. 0 < j \<and> j < length xs \<longrightarrow> truncated (xs ! j)"
  shows "\<forall>j. 0 < j \<and> j < length (xs[k := c_str ((buffer VI_FIND_BUFLEN img)
                                               [VI_FIND_BUFLEN - 1 := CHR 0x00])])
           \<longrightarrow> truncated ((xs[k := c_str ((buffer VI_FIND_BUFLEN img)
                                            [VI_FIND_BUFLEN - 1 := CHR 0x00])]) ! j)"
proof (intro allI impI)
  fix j
  let ?c = "c_str ((buffer VI_FIND_BUFLEN img)[VI_FIND_BUFLEN - 1 := CHR 0x00])"
  assume "0 < j \<and> j < length (xs[k := ?c])"
  then have j: "0 < j" "j < length xs"
    by simp_all
  show "truncated ((xs[k := ?c]) ! j)"
  proof (cases "k = j")
    case True
    then show ?thesis using j truncated_c_str by simp
  next
    case False
    then show ?thesis using j assms by simp
  qed
qed

lemma findNext_loop_elem:
  assumes "0 < k" and "k \<le> j" and "j < n" and "j < length xs"
    and "\<forall>i. k \<le> i \<and> i \<le> j \<longrightarrow>
           \<not> status (drv (trace s @ replicate (i - k) (ViFindNext fl)) (ViFindNext fl))
               <s VI_SUCCESS"
    and "\<forall>i. 0 < i \<and> i < length xs \<longrightarrow> truncated (xs ! i)"
  shows "fst (findNext_loop drv fl k n xs s) ! j =
           c_str ((buffer VI_FIND_BUFLEN
                     (outBuf (drv (trace s @ replicate (j - k) (ViFindNext fl)) (ViFindNext fl))))
                  [VI_FIND_BUFLEN - 1 := CHR 0x00])"
  using assms
proof (induction "j - k" arbitrary: k xs s)
  case 0
  then have jk: "j = k" by simp
  have ok: "\<not> status (drv (trace s) (ViFindNext fl)) <s VI_SUCCESS"
    using "0.prems"(5) [rule_format, of k] jk by simp
  have kn: "k < n" and kl: "k < length xs"
    using "0.prems"(3,4) jk by simp_all
  show ?case
    using findNext_loop_step [of k n xs drv s fl, OF "0.prems"(1) kn kl ok "0.prems"(6)] jk
    by simp
next
  case (Suc d)
  let ?e = "ViFindNext fl"
  let ?c = "c_str ((buffer VI_FIND_BUFLEN (outBuf (drv (trace s) ?e)))
                   [VI_FIND_BUFLEN - 1 := CHR 0x00])"
  let ?s = "s\<lparr>trace := trace s @ [?e]\<rparr>"
  have lt: "k < j" using Suc.hyps(2) by simp
  have kn: "k < n" using lt Suc.prems(3) by simp
  have ok: "\<not> status (drv (trace s) ?e) <s VI_SUCCESS"
    using Suc.prems(5) [rule_format, of k] lt by simp
  have step: "findNext_loop drv fl k n xs s = findNext_loop drv fl (k + 1) n (xs[k := ?c]) ?s"
    by (rule findNext_loop_succ [where drv = drv and s = s and fl = fl, OF kn ok])
  have d: "d = j - (k + 1)" using Suc.hyps(2) by simp
  have shift: "trace ?s @ replicate (i - (k + 1)) ?e = trace s @ replicate (i - k) ?e"
    if "k + 1 \<le> i" for i
  proof -
    from that have "i - k = Suc (i - (k + 1))" by simp
    then show ?thesis by simp
  qed
  have oks: "\<forall>i. k + 1 \<le> i \<and> i \<le> j \<longrightarrow>
           \<not> status (drv (trace ?s @ replicate (i - (k + 1)) ?e) ?e) <s VI_SUCCESS"
  proof (intro allI impI)
    fix i
    assume i: "k + 1 \<le> i \<and> i \<le> j"
    then have "k \<le> i \<and> i \<le> j" by simp
    then have ok': "\<not> status (drv (trace s @ replicate (i - k) ?e) ?e) <s VI_SUCCESS"
      using Suc.prems(5) by blast
    have eq: "trace ?s @ replicate (i - (k + 1)) ?e = trace s @ replicate (i - k) ?e"
      using i by (intro shift) simp
    show "\<not> status (drv (trace ?s @ replicate (i - (k + 1)) ?e) ?e) <s VI_SUCCESS"
      unfolding eq by (rule ok')
  qed
  have IH: "fst (findNext_loop drv fl (k + 1) n (xs[k := ?c]) ?s) ! j =
           c_str ((buffer VI_FIND_BUFLEN
                     (outBuf (drv (trace ?s @ replicate (j - (k + 1)) ?e) ?e)))
                  [VI_FIND_BUFLEN - 1 := CHR 0x00])"
  proof (rule Suc.hyps(1) [OF d])
    show "0 < k + 1" by simp
    show "k + 1 \<le> j" using lt by simp
    show "j < n" by (rule Suc.prems(3))
    show "j < length (xs[k := ?c])" using Suc.prems(4) by simp
    show "\<forall>i. k + 1 \<le> i \<and> i \<le> j \<longrightarrow>
           \<not> status (drv (trace ?s @ replicate (i - (k + 1)) ?e) ?e) <s VI_SUCCESS"
      by (rule oks)
    show "\<forall>i. 0 < i \<and> i < length (xs[k := ?c]) \<longrightarrow> truncated ((xs[k := ?c]) ! i)"
      by (rule truncated_update [OF Suc.prems(6)])
  qed
  have "k + 1 \<le> j" using lt by simp
  then have eq: "trace ?s @ replicate (j - (k + 1)) ?e = trace s @ replicate (j - k) ?e"
    by (rule shift)
  show ?case
    unfolding step IH eq by (rule refl)
qed

text \<open>
  Claim C9. When the discovery call succeeds, \<open>findInstruments\<close> returns as many elements
  as the driver reported. The first element, when there is one, is the whole discovery
  buffer: exactly \<open>VI_FIND_BUFLEN\<close> characters, the bytes after the identifier's null
  included. Every later element is cut at its first null byte: it holds no null and is
  shorter than the buffer, and as long as the \<open>viFindNext\<close> calls up to it succeed it is
  the text before the first null of its own call's buffer (the elements from the first
  failing call on stay empty).
\<close>

theorem findInstruments_first_element_not_truncated:
  assumes "initialized_m s"
    and "\<not> status (drv (trace s) (ViFindRsrc (session_m s) (c_str expr))) <s VI_SUCCESS"
  shows "length (fst (findInstruments drv expr s))
           = unat (outCount (drv (trace s) (ViFindRsrc (session_m s) (c_str expr))))
     \<and> (outCount (drv (trace s) (ViFindRsrc (session_m s) (c_str expr))) \<noteq> 0 \<longrightarrow>
          fst (findInstruments drv expr s) ! 0
            = buffer VI_FIND_BUFLEN (outBuf (drv (trace s) (ViFindRsrc (session_m s) (c_str expr))))
          \<and> length (fst (findInstruments drv expr s) ! 0) = VI_FIND_BUFLEN)
     \<and> (\<forall>k. 0 < k \<and> k < length (fst (findInstruments drv expr s)) \<longrightarrow>
          truncated (fst (findInstruments drv expr s) ! k))
     \<and> (\<forall>k. 0 < k \<and> k < unat (outCount (drv (trace s) (ViFindRsrc (session_m s) (c_str expr))))
          \<and> (\<forall>i. 0 < i \<and> i \<le> k \<longrightarrow>
                \<not> status (drv (trace s @ ViFindRsrc (session_m s) (c_str expr) #
                                 replicate (i - 1) (ViFindNext (outHandle (drv (trace s)
                                    (ViFindRsrc (session_m s) (c_str expr))))))
                        (ViFindNext (outHandle (drv (trace s) (ViFindRsrc (session_m s) (c_str expr))))))
                    <s VI_SUCCESS) \<longrightarrow>
          fst (findInstruments drv expr s) ! k
            = c_str ((buffer VI_FIND_BUFLEN
                        (outBuf (drv (trace s @ ViFindRsrc (session_m s) (c_str expr) #
                                   replicate (k - 1) (ViFindNext (outHandle (drv (trace s)
                                      (ViFindRsrc (session_m s) (c_str expr))))))
                           (ViFindNext (outHandle (drv (trace s)
                              (ViFindRsrc (session_m s) (c_str expr))))))))
                     [VI_FIND_BUFLEN - 1 := CHR 0x00]))"
proof -
  define r where "r = drv (trace s) (ViFindRsrc (session_m s) (c_str expr))"
  define xs where "xs = (replicate (unat (outCount r)) [])[0 := buffer VI_FIND_BUFLEN (outBuf r)]"
  define s3 where "s3 = s\<lparr>trace := trace s @ [ViFindRsrc (session_m s) (c_str expr)],
                           heapFault := heapFault s \<or> unat (outCount r) = 0\<rparr>"
  have f: "findInstruments drv expr s
             = findNext_loop drv (outHandle r) 1 (unat (outCount r)) xs s3"
    using assms
    by (simp add: findInstruments_def viCall_def Let_def split_beta processStatus_ok
          r_def xs_def s3_def)
  have len: "length xs = unat (outCount r)"
    by (simp add: xs_def)
  have pre: "\<forall>j. 0 < j \<and> j < length xs \<longrightarrow> truncated (xs ! j)"
    by (simp add: xs_def truncated_Nil)
  have one: "0 < (1::nat)" by simp
  have t: "trace s3 @ ys = trace s @ ViFindRsrc (session_m s) (c_str expr) # ys" for ys
    by (simp add: s3_def)
  note inv = findNext_loop_inv [OF one pre, of drv "outHandle r" "unat (outCount r)" s3]
  have a: "length (fst (findInstruments drv expr s)) = unat (outCount r)"
    using inv len by (simp add: f)
  have b: "fst (findInstruments drv expr s) ! 0 = buffer VI_FIND_BUFLEN (outBuf r)
           \<and> length (fst (findInstruments drv expr s) ! 0) = VI_FIND_BUFLEN"
    if "outCount r \<noteq> 0"
  proof -
    from that have "0 < unat (outCount r)"
      by (simp add: unat_gt_0)
    then have "xs ! 0 = buffer VI_FIND_BUFLEN (outBuf r)"
      by (simp add: xs_def)
    then show ?thesis
      using inv by (simp add: f buffer_def)
  qed
  have c: "\<forall>k. 0 < k \<and> k < length (fst (findInstruments drv expr s)) \<longrightarrow>
          truncated (fst (findInstruments drv expr s) ! k)"
    using inv by (simp add: f)
  have d: "fst (findInstruments drv expr s) ! k
            = c_str ((buffer VI_FIND_BUFLEN
                        (outBuf (drv (trace s @ ViFindRsrc (session_m s) (c_str expr) #
                                   replicate (k - 1) (ViFindNext (outHandle r)))
                           (ViFindNext (outHandle r)))))
                     [VI_FIND_BUFLEN - 1 := CHR 0x00])"
    if k: "0 < k" "k < unat (outCount r)"
      and oks: "\<forall>i. 0 < i \<and> i \<le> k \<longrightarrow>
                \<not> status (drv (trace s @ ViFindRsrc (session_m s) (c_str expr) #
                                 replicate (i - 1) (ViFindNext (outHandle r)))
                        (ViFindNext (outHandle r))) <s VI_SUCCESS"
    for k
  proof -
    have k1: "1 \<le> k" using k(1) by simp
    have kl: "k < length xs" using k(2) len by simp
    have oks': "\<forall>i. 1 \<le> i \<and> i \<le> k \<longrightarrow>
           \<not> status (drv (trace s3 @ replicate (i - 1) (ViFindNext (outHandle r)))
                  (ViFindNext (outHandle r))) <s VI_SUCCESS"
      unfolding t using oks by (simp add: Suc_le_eq)
    show ?thesis
      unfolding f
      using findNext_loop_elem
              [where k = 1 and j = k and n = "unat (outCount r)" and xs = xs and drv = drv
                 and s = s3 and fl = "outHandle r", OF one k1 k(2) kl oks' pre]
      unfolding t .
  qed
  show ?thesis
    using a b c d unfolding r_def by blast
qed

text \<open>
  A run of C9: two matches, each time with \<open>UUUU\<close> and nulls in the buffer. The first
  element has 256 characters, nulls among them; the second is \<open>UUUU\<close>.
\<close>

lemma found_first: "CHR 0x00 \<in> set (buffer VI_FIND_BUFLEN (outBuf reply_found))"
  by code_simp

lemma found_second:
  "c_str ((buffer VI_FIND_BUFLEN (outBuf reply_found))[VI_FIND_BUFLEN - 1 := CHR 0x00]) = ''UUUU''"
  by code_simp

theorem findInstruments_first_element_not_truncated_witness:
  "length (fst (findInstruments drv_found ''USB?*'' dev_init)) = 2
   \<and> length (fst (findInstruments drv_found ''USB?*'' dev_init) ! 0) = VI_FIND_BUFLEN
   \<and> CHR 0x00 \<in> set (fst (findInstruments drv_found ''USB?*'' dev_init) ! 0)
   \<and> truncated (fst (findInstruments drv_found ''USB?*'' dev_init) ! 1)
   \<and> fst (findInstruments drv_found ''USB?*'' dev_init) ! 1 = ''UUUU''"
proof -
  have i: "initialized_m dev_init"
    by (simp add: dev_init_def)
  have r: "drv_found tr c = reply_found" for tr c
    by (simp add: drv_found_def)
  have ok: "\<not> status (drv_found (trace dev_init) (ViFindRsrc (session_m dev_init) (c_str ''USB?*'')))
              <s VI_SUCCESS"
    by (simp add: r reply_found_def VI_SUCCESS_def)
  have ok2: "\<not> status reply_found <s VI_SUCCESS"
    by (simp add: reply_found_def VI_SUCCESS_def)
  have cnt: "outCount (drv_found (trace dev_init) (ViFindRsrc (session_m dev_init) (c_str ''USB?*''))) \<noteq> 0"
    and two: "unat (outCount (drv_found (trace dev_init)
                (ViFindRsrc (session_m dev_init) (c_str ''USB?*'')))) = 2"
    by (simp_all add: r reply_found_def)
  note inst = findInstruments_first_element_not_truncated
                [where s = dev_init and drv = drv_found and expr = "''USB?*''", OF i ok]
  have a: "length (fst (findInstruments drv_found ''USB?*'' dev_init)) = 2"
    using inst two by simp
  have b0: "fst (findInstruments drv_found ''USB?*'' dev_init) ! 0
            = buffer VI_FIND_BUFLEN (outBuf (drv_found (trace dev_init)
                (ViFindRsrc (session_m dev_init) (c_str ''USB?*''))))"
    and c: "length (fst (findInstruments drv_found ''USB?*'' dev_init) ! 0) = VI_FIND_BUFLEN"
    using inst cnt by blast+
  have b: "fst (findInstruments drv_found ''USB?*'' dev_init) ! 0
            = buffer VI_FIND_BUFLEN (outBuf reply_found)"
    using b0 by (simp only: r)
  have k: "0 < (1::nat) \<and> 1 < length (fst (findInstruments drv_found ''USB?*'' dev_init))"
    by (simp add: a)
  have d: "truncated (fst (findInstruments drv_found ''USB?*'' dev_init) ! 1)"
    using inst k by blast
  have h: "0 < (1::nat) \<and> 1 < unat (outCount (drv_found (trace dev_init)
                (ViFindRsrc (session_m dev_init) (c_str ''USB?*''))))
           \<and> (\<forall>i. 0 < i \<and> i \<le> 1 \<longrightarrow>
                \<not> status (drv_found (trace dev_init @ ViFindRsrc (session_m dev_init) (c_str ''USB?*'') #
                                 replicate (i - 1) (ViFindNext (outHandle (drv_found (trace dev_init)
                                    (ViFindRsrc (session_m dev_init) (c_str ''USB?*''))))))
                        (ViFindNext (outHandle (drv_found (trace dev_init)
                            (ViFindRsrc (session_m dev_init) (c_str ''USB?*'')))))) <s VI_SUCCESS)"
    using ok2 by (simp add: r reply_found_def)
  have e: "fst (findInstruments drv_found ''USB?*'' dev_init) ! 1 =
      c_str ((buffer VI_FIND_BUFLEN (outBuf reply_found))[VI_FIND_BUFLEN - 1 := CHR 0x00])"
    using inst [THEN conjunct2, THEN conjunct2, THEN conjunct2, rule_format, OF h]
    by (simp only: r)
  show ?thesis
    using a c d found_first found_second by (simp only: b e)
qed

subsection \<open>String attributes\<close>

text \<open>
  Claim C10. On an open device \<open>getStringAttribute\<close> returns the text before the first null
  of its buffer (whose last byte it sets to null), whatever status the driver call
  returned: two drivers that leave the same bytes in the buffer give the same string, be
  the status good or bad. The status shows only in the last error, which becomes the
  description of the failure when the status is negative and stays as it was otherwise.
\<close>

theorem getStringAttribute_ignores_status:
  "(open_m s \<longrightarrow>
      fst (getStringAttribute drv a s) =
        c_str ((buffer ATTR_MAX_LENGTH (outBuf (drv (trace s) (ViGetAttribute (device_m s) a))))
               [ATTR_MAX_LENGTH - 1 := CHR 0x00]))
   \<and> (open_m s \<and> outBuf (drv (trace s) (ViGetAttribute (device_m s) a))
                    = outBuf (drv' (trace s) (ViGetAttribute (device_m s) a)) \<longrightarrow>
        fst (getStringAttribute drv a s) = fst (getStringAttribute drv' a s))
   \<and> (open_m s \<and> status (drv (trace s) (ViGetAttribute (device_m s) a)) <s VI_SUCCESS \<longrightarrow>
        lastError_m (snd (getStringAttribute drv a s)) =
          c_str ((buffer ERROR_MSG_MAX
                    (outBuf (drv (trace s @ [ViGetAttribute (device_m s) a])
                       (ViStatusDesc (device_m s)
                          (status (drv (trace s) (ViGetAttribute (device_m s) a)))))))
                 [ERROR_MSG_MAX - 1 := CHR 0x00]))
   \<and> (open_m s \<and> \<not> status (drv (trace s) (ViGetAttribute (device_m s) a)) <s VI_SUCCESS \<longrightarrow>
        lastError_m (snd (getStringAttribute drv a s)) = lastError_m s)"
proof -
  have v: "fst (getStringAttribute d a s) =
        c_str ((buffer ATTR_MAX_LENGTH (outBuf (d (trace s) (ViGetAttribute (device_m s) a))))
               [ATTR_MAX_LENGTH - 1 := CHR 0x00])"
    if "open_m s" for d
    using that by (simp add: getStringAttribute_def viCall_def Let_def split_beta)
  have e: "lastError_m (snd (getStringAttribute drv a s)) =
          c_str ((buffer ERROR_MSG_MAX
                    (outBuf (drv (trace s @ [ViGetAttribute (device_m s) a])
                       (ViStatusDesc (device_m s)
                          (status (drv (trace s) (ViGetAttribute (device_m s) a)))))))
                 [ERROR_MSG_MAX - 1 := CHR 0x00])"
    if "open_m s" and "status (drv (trace s) (ViGetAttribute (device_m s) a)) <s VI_SUCCESS"
    using that
    by (simp add: getStringAttribute_def viCall_def Let_def split_beta processStatus_lastError)
  have k: "lastError_m (snd (getStringAttribute drv a s)) = lastError_m s"
    if "open_m s" and "\<not> status (drv (trace s) (ViGetAttribute (device_m s) a)) <s VI_SUCCESS"
    using that
    by (simp add: getStringAttribute_def viCall_def Let_def split_beta processStatus_ok)
  show ?thesis
    using v [of drv] v [of drv'] e k by simp
qed

text \<open>
  A run of C10: the same buffer \<open>BB\<close>, once with a hard error and once with success; the
  strings agree, the last errors differ.
\<close>

lemma name_attr:
  "c_str ((buffer ATTR_MAX_LENGTH (outBuf reply_name))[ATTR_MAX_LENGTH - 1 := CHR 0x00]) = ''BB''"
  by code_simp

theorem getStringAttribute_ignores_status_witness:
  "open_m dev_open
   \<and> status (drv_name_err (trace dev_open)
         (ViGetAttribute (device_m dev_open) VI_ATTR_MANF_NAME)) <s VI_SUCCESS
   \<and> \<not> status (drv_name (trace dev_open)
         (ViGetAttribute (device_m dev_open) VI_ATTR_MANF_NAME)) <s VI_SUCCESS
   \<and> fst (getStringAttribute drv_name_err VI_ATTR_MANF_NAME dev_open) = ''BB''
   \<and> fst (getStringAttribute drv_name VI_ATTR_MANF_NAME dev_open) = ''BB''
   \<and> lastError_m (snd (getStringAttribute drv_name_err VI_ATTR_MANF_NAME dev_open)) = ''EEE''
   \<and> lastError_m (snd (getStringAttribute drv_name VI_ATTR_MANF_NAME dev_open)) = []"
proof -
  have o: "open_m dev_open" and le: "lastError_m dev_open = []"
    by (simp_all add: dev_open_def dev_init_def mem_clear_def)
  have f: "status (drv_name_err (trace dev_open)
         (ViGetAttribute (device_m dev_open) VI_ATTR_MANF_NAME)) <s VI_SUCCESS"
    by (simp add: drv_name_err_def reply_name_err_def reply_name_def VI_SUCCESS_def
          word_sless_alt)
  have g: "\<not> status (drv_name (trace dev_open)
         (ViGetAttribute (device_m dev_open) VI_ATTR_MANF_NAME)) <s VI_SUCCESS"
    by (simp add: drv_name_def reply_name_def VI_SUCCESS_def)
  have same: "outBuf (drv_name_err (trace dev_open)
                 (ViGetAttribute (device_m dev_open) VI_ATTR_MANF_NAME))
              = outBuf (drv_name (trace dev_open)
                 (ViGetAttribute (device_m dev_open) VI_ATTR_MANF_NAME))"
    by (simp add: drv_name_err_def drv_name_def reply_name_err_def)
  note bad = getStringAttribute_ignores_status
               [of dev_open drv_name_err VI_ATTR_MANF_NAME drv_name]
  note good = getStringAttribute_ignores_status
               [of dev_open drv_name VI_ATTR_MANF_NAME drv_name]
  from good o have a: "fst (getStringAttribute drv_name VI_ATTR_MANF_NAME dev_open) = ''BB''"
    by (simp add: drv_name_def name_attr del: One_nat_def)
  from bad o same have b: "fst (getStringAttribute drv_name_err VI_ATTR_MANF_NAME dev_open)
                            = fst (getStringAttribute drv_name VI_ATTR_MANF_NAME dev_open)"
    by blast
  from bad o f have c: "lastError_m (snd (getStringAttribute drv_name_err VI_ATTR_MANF_NAME dev_open))
                         = ''EEE''"
    by (simp add: drv_name_err_def c_str_buffer_err del: One_nat_def)
  from good o g le have d: "lastError_m (snd (getStringAttribute drv_name VI_ATTR_MANF_NAME dev_open)) = []"
    by simp
  show ?thesis
    using o f g a b c d by simp
qed

subsection \<open>The session comes before the device\<close>

text \<open>
  \<open>open_\<close> is raised by \<open>open\<close> alone, and only on an initialized session; no operation
  other than the destructor clears \<open>initialized_\<close>. So an object on which \<open>open_\<close> implies
  \<open>initialized_\<close> keeps that property through every operation. The constructor does not
  establish it by itself: it writes neither flag when the session is refused.
\<close>

lemma close_initialized: "initialized_m (snd (close drv s)) = initialized_m s"
  by (simp add: close_def Let_def split_beta viCall_def processStatus_fields write_msg_fields)

lemma close_open_only_clears: "open_m (snd (close drv s)) \<Longrightarrow> open_m s"
  by (simp add: close_open_m)

lemma open_device_initialized:
  "initialized_m (snd (open_device drv d m t s)) = initialized_m s"
  by (simp add: open_device_def Let_def split_beta viCall_def processStatus_fields
        close_initialized)

lemma open_device_open:
  "open_m (snd (open_device drv d m t s)) \<Longrightarrow> open_m s \<or> initialized_m s"
  by (auto simp add: open_device_def Let_def split_beta viCall_def processStatus_fields
        split: if_splits)

lemma session_before_device_kept:
  assumes "open_m s \<longrightarrow> initialized_m s"
  shows "open_m (snd (open_device drv d m t s)) \<longrightarrow> initialized_m (snd (open_device drv d m t s))"
    and "open_m (snd (close drv s)) \<longrightarrow> initialized_m (snd (close drv s))"
    and "open_m (snd (write_msg drv msg s)) \<longrightarrow> initialized_m (snd (write_msg drv msg s))"
    and "open_m (snd (read drv n s)) \<longrightarrow> initialized_m (snd (read drv n s))"
    and "open_m (snd (query drv msg s)) \<longrightarrow> initialized_m (snd (query drv msg s))"
    and "open_m (snd (setAttribute drv a v s)) \<longrightarrow> initialized_m (snd (setAttribute drv a v s))"
    and "open_m (snd (getStringAttribute drv a s))
           \<longrightarrow> initialized_m (snd (getStringAttribute drv a s))"
    and "open_m (snd (getLastError s)) \<longrightarrow> initialized_m (snd (getLastError s))"
proof -
  show "open_m (snd (open_device drv d m t s)) \<longrightarrow> initialized_m (snd (open_device drv d m t s))"
    using assms open_device_open [of drv d m t s] by (auto simp add: open_device_initialized)
  show "open_m (snd (close drv s)) \<longrightarrow> initialized_m (snd (close drv s))"
    using assms close_open_only_clears [of drv s] by (auto simp add: close_initialized)
  show "open_m (snd (write_msg drv msg s)) \<longrightarrow> initialized_m (snd (write_msg drv msg s))"
    using assms by (simp add: write_msg_fields)
  show "open_m (snd (read drv n s)) \<longrightarrow> initialized_m (snd (read drv n s))"
    using assms by (simp add: read_def Let_def split_beta viCall_def processStatus_fields)
  show "open_m (snd (query drv msg s)) \<longrightarrow> initialized_m (snd (query drv msg s))"
    using assms
    by (simp add: query_def read_def Let_def split_beta viCall_def processStatus_fields
          write_msg_fields)
  show "open_m (snd (setAttribute drv a v s)) \<longrightarrow> initialized_m (snd (setAttribute drv a v s))"
    using assms by (simp add: setAttribute_def Let_def split_beta viCall_def processStatus_fields)
  show "open_m (snd (getStringAttribute drv a s))
           \<longrightarrow> initialized_m (snd (getStringAttribute drv a s))"
    using assms
    by (simp add: getStringAttribute_def Let_def split_beta viCall_def processStatus_fields)
  show "open_m (snd (getLastError s)) \<longrightarrow> initialized_m (snd (getLastError s))"
    using assms by (simp add: getLastError_def)
qed

end
